theory Spec2Isabelle
  imports Main "HOL-Library.Word"
begin

section \<open>Values shared by the provider models\<close>

text \<open>
  The provider keeps configuration values in the three-state attribute types of the
  plugin framework (\<^verbatim>\<open>types.String\<close>, \<^verbatim>\<open>types.Int64\<close>): null, unknown, or a known
  value. \<^verbatim>\<open>ValueString()\<close> reads a null or unknown string as the empty string, and
  \<^verbatim>\<open>IsNull()\<close> holds of the null state only. The zero value of the Go type is null.
\<close>

datatype tfstring = StringNull | StringUnknown | StringValue string

datatype tfint64 = Int64Null | Int64Unknown | Int64Value int

datatype tfbool = BoolNull | BoolUnknown | BoolValue bool

fun String_IsNull :: "tfstring \<Rightarrow> bool" where
  "String_IsNull StringNull = True"
| "String_IsNull StringUnknown = False"
| "String_IsNull (StringValue s) = False"

fun ValueString :: "tfstring \<Rightarrow> string" where
  "ValueString StringNull = []"
| "ValueString StringUnknown = []"
| "ValueString (StringValue s) = s"

fun ValueInt64 :: "tfint64 \<Rightarrow> int" where
  "ValueInt64 Int64Null = 0"
| "ValueInt64 Int64Unknown = 0"
| "ValueInt64 (Int64Value i) = i"

text \<open>
  Wire values use \<^verbatim>\<open>nullable.Nullable[T]\<close> (a \<^verbatim>\<open>map[bool]T\<close>): the field was not sent,
  was sent as null, or carries a value. \<^verbatim>\<open>IsNull()\<close> holds of an explicit null,
  \<^verbatim>\<open>IsSpecified()\<close> of everything that was sent, and \<^verbatim>\<open>MustGet()\<close> panics unless
  there is a value.
\<close>

datatype 'a nullable = Unspecified | Null | Value 'a

datatype error =
    Panic string
  | NotFoundError
  | RemoteError string
  | StatusError string int string
  | RootTypeError string
  | NestedFolderError string
  | MissingUuidError string
  | UuidParseError string
  | JsonError string
  | Wrapped string error

fun IsNull :: "'a nullable \<Rightarrow> bool" where
  "IsNull Null = True"
| "IsNull Unspecified = False"
| "IsNull (Value v) = False"

fun IsSpecified :: "'a nullable \<Rightarrow> bool" where
  "IsSpecified Unspecified = False"
| "IsSpecified Null = True"
| "IsSpecified (Value v) = True"

fun MustGet :: "'a nullable \<Rightarrow> error + 'a" where
  "MustGet (Value v) = Inr v"
| "MustGet Null = Inl (Panic ''value is null'')"
| "MustGet Unspecified = Inl (Panic ''value is not specified'')"

text \<open>A UUID is the 16-byte array of the Go library, read as one 128-bit word.\<close>

type_synonym uuid = "128 word"

section \<open>Dataset columns: \<^verbatim>\<open>model_dataset_columns.go\<close>\<close>

text \<open>
  The fields of the server's column (\<^verbatim>\<open>client.DatasetRestApiGetTableColumn\<close>) that
  the modelled functions read.
\<close>

record DatasetRestApiGetTableColumn =
  col_Id :: int
  col_ColumnName :: string
  col_Type :: "string nullable"
  col_Uuid :: "uuid nullable"

record datasetColumn =
  dc_Id :: tfint64
  dc_AdvancedDataType :: tfstring
  dc_ColumnName :: tfstring
  dc_Description :: tfstring
  dc_Expression :: tfstring
  dc_Extra :: tfstring
  dc_Filterable :: tfbool
  dc_Groupby :: tfbool
  dc_IsActive :: tfbool
  dc_IsDttm :: tfbool
  dc_Type :: tfstring
  dc_VerboseName :: tfstring

record datasetColumnsBaseModel =
  dcs_DatasetId :: tfint64
  dcs_DatasetName :: tfstring
  dcs_Columns :: "datasetColumn list"

text \<open>The first loop of \<^verbatim>\<open>resovleColumns\<close>: a later column of the same name replaces an
  earlier one in the Go map.\<close>

definition mapColumnNameToColumn ::
  "DatasetRestApiGetTableColumn list \<Rightarrow> (string \<rightharpoonup> DatasetRestApiGetTableColumn)" where
  "mapColumnNameToColumn columns = fold (\<lambda>c m. m(col_ColumnName c \<mapsto> c)) columns Map.empty"

text \<open>The body of the second loop, for one declared column.\<close>

definition resovleColumn ::
  "(string \<rightharpoonup> DatasetRestApiGetTableColumn) \<Rightarrow> datasetColumn \<Rightarrow> error + datasetColumn" where
  "resovleColumn m column =
     (case m (ValueString (dc_ColumnName column)) of
        Some c \<Rightarrow>
          (let column1 = column\<lparr>dc_Id := Int64Value (col_Id c)\<rparr> in
           if \<not> IsNull (col_Type c) then
             (case MustGet (col_Type c) of
                Inl e \<Rightarrow> Inl e
              | Inr t \<Rightarrow> if t \<noteq> [] then Inr (column1\<lparr>dc_Type := StringValue t\<rparr>) else Inr column1)
           else Inr column1)
      | None \<Rightarrow> Inr column)"

fun resovleColumns_loop ::
  "(string \<rightharpoonup> DatasetRestApiGetTableColumn) \<Rightarrow> datasetColumn list \<Rightarrow> datasetColumn list
   \<Rightarrow> error + datasetColumn list" where
  "resovleColumns_loop m [] resolvedColumns = Inr resolvedColumns"
| "resovleColumns_loop m (column # rest) resolvedColumns =
     (case resovleColumn m column of
        Inl e \<Rightarrow> Inl e
      | Inr column' \<Rightarrow> resovleColumns_loop m rest (resolvedColumns @ [column']))"

definition resovleColumns ::
  "datasetColumnsBaseModel \<Rightarrow> DatasetRestApiGetTableColumn list \<Rightarrow> error + datasetColumn list" where
  "resovleColumns model columns =
     resovleColumns_loop (mapColumnNameToColumn columns) (dcs_Columns model) []"

text \<open>What one declared column becomes, read off the server's list: the last server
  column of that name gives the id, and gives the type when its type is a non-empty value.\<close>

definition reconciledColumn ::
  "DatasetRestApiGetTableColumn list \<Rightarrow> datasetColumn \<Rightarrow> datasetColumn" where
  "reconciledColumn columns column =
     (case find (\<lambda>c. col_ColumnName c = ValueString (dc_ColumnName column)) (rev columns) of
        None \<Rightarrow> column
      | Some c \<Rightarrow>
          column\<lparr>dc_Id := Int64Value (col_Id c),
                 dc_Type := (case col_Type c of
                               Value t \<Rightarrow> if t \<noteq> [] then StringValue t else dc_Type column
                             | Null \<Rightarrow> dc_Type column
                             | Unspecified \<Rightarrow> dc_Type column)\<rparr>)"

section \<open>Dataset folders: \<^verbatim>\<open>model_dataset_folder.go\<close>\<close>

text \<open>Modelled from the spec: the generated constants \<^verbatim>\<open>client.FolderTypeFolder\<close>,
  \<^verbatim>\<open>client.FolderTypeColumn\<close> and \<^verbatim>\<open>client.FolderTypeMetric\<close> are not among the
  sources; the data model gives the node types as folder, column and metric, and the
  schema validators of the folder resource accept exactly these strings.\<close>

definition FolderTypeFolder :: string where "FolderTypeFolder = ''folder''"

text \<open>The wire node \<^verbatim>\<open>client.Folder\<close>, with the fields the provider reads and writes.\<close>

datatype Folder =
  Folder (f_Name: string) (f_Type: string) (f_Description: "string nullable")
         (f_Uuid: uuid) (f_Children: "Folder list nullable")

record DatasetRestApiGetSqlMetric =
  met_Id :: int
  met_MetricName :: string
  met_Extra :: "string nullable"
  met_Uuid :: "uuid nullable"

text \<open>The dataset as the server returns it. Its folders arrive as an untyped JSON value
  (type \<open>'j\<close>), which \<^verbatim>\<open>mapToFolders\<close> turns into typed nodes.\<close>

record 'j DatasetRestApiGet =
  ds_Id :: int
  ds_TableName :: string
  ds_Columns :: "DatasetRestApiGetTableColumn list"
  ds_Metrics :: "DatasetRestApiGetSqlMetric list"
  ds_Folders :: "'j nullable"

record datasetFolderChildModel =
  fc_Name :: tfstring
  fc_Description :: tfstring
  fc_Type :: tfstring
  fc_Uuid :: tfstring

record datasetFolderModel =
  fm_Name :: tfstring
  fm_Description :: tfstring
  fm_Type :: tfstring
  fm_Children :: "datasetFolderChildModel list"
  fm_Uuid :: tfstring

record datasetFolderBaseModel =
  fb_DatasetId :: tfint64
  fb_DatasetName :: tfstring
  fb_Folders :: "datasetFolderModel list"

subsection \<open>The text form of a UUID\<close>

text \<open>\<^verbatim>\<open>UUID.String()\<close> of the UUID library: 32 lower-case hexadecimal digits in groups
  of 8, 4, 4, 4 and 12, most significant byte first.\<close>

definition hexDigit :: "nat \<Rightarrow> char" where
  "hexDigit n = ''0123456789abcdef'' ! (n mod 16)"

definition uuid_byte :: "uuid \<Rightarrow> nat \<Rightarrow> nat" where
  "uuid_byte u i = unat (drop_bit (8 * (15 - i)) u) mod 256"

definition hexByte :: "nat \<Rightarrow> string" where
  "hexByte b = [hexDigit (b div 16), hexDigit (b mod 16)]"

definition hexBytes :: "uuid \<Rightarrow> nat list \<Rightarrow> string" where
  "hexBytes u is = concat (map (\<lambda>i. hexByte (uuid_byte u i)) is)"

definition uuid_String :: "uuid \<Rightarrow> string" where
  "uuid_String u =
     hexBytes u [0, 1, 2, 3] @ ''-'' @ hexBytes u [4, 5] @ ''-'' @ hexBytes u [6, 7] @ ''-'' @
     hexBytes u [8, 9] @ ''-'' @ hexBytes u [10, 11, 12, 13, 14, 15]"

definition nilUuidString :: string where
  "nilUuidString = ''00000000-0000-0000-0000-000000000000''"

subsection \<open>Wire to configuration: \<^verbatim>\<open>updateState\<close>\<close>

text \<open>\<^verbatim>\<open>mapToFolders\<close> marshals the untyped value to JSON and unmarshals it as a folder
  list. Both steps belong to the JSON library and are parameters here.\<close>

definition mapToFolders ::
  "('j \<Rightarrow> error + 'b) \<Rightarrow> ('b \<Rightarrow> error + Folder list) \<Rightarrow> 'j \<Rightarrow> error + Folder list" where
  "mapToFolders json_Marshal json_Unmarshal m =
     (case json_Marshal m of
        Inl err \<Rightarrow> Inl err
      | Inr b \<Rightarrow> (case json_Unmarshal b of Inl err \<Rightarrow> Inl err | Inr folders \<Rightarrow> Inr folders))"

text \<open>The guarded assignment
  \<^verbatim>\<open>if x.Description.IsSpecified() && x.Description.MustGet() != "" { ... }\<close>:
  the new description, given the current one. An explicit null passes
  \<^verbatim>\<open>IsSpecified\<close> and makes \<^verbatim>\<open>MustGet\<close> panic.\<close>

definition readDescription :: "string nullable \<Rightarrow> tfstring \<Rightarrow> error + tfstring" where
  "readDescription d cur =
     (if IsSpecified d then
        (case MustGet d of
           Inl e \<Rightarrow> Inl e
         | Inr s \<Rightarrow> if s \<noteq> [] then Inr (StringValue s) else Inr cur)
      else Inr cur)"

text \<open>The loop over the children in \<^verbatim>\<open>datasetFolderModel.updateState\<close>.\<close>

fun updateState_children ::
  "Folder list \<Rightarrow> datasetFolderChildModel list \<Rightarrow> error + datasetFolderChildModel list" where
  "updateState_children [] children = Inr children"
| "updateState_children (child # rest) children =
     (let childModel = \<lparr>fc_Name = StringValue (f_Name child), fc_Description = StringNull,
                         fc_Type = StringValue (f_Type child), fc_Uuid = StringNull\<rparr> in
      case readDescription (f_Description child) (fc_Description childModel) of
        Inl e \<Rightarrow> Inl e
      | Inr desc \<Rightarrow>
          (let childModel1 = childModel\<lparr>fc_Description := desc\<rparr>;
               u = uuid_String (f_Uuid child) in
           if u = [] \<or> u = ''00000000-0000-0000-0000-000000000000''
           then Inl (MissingUuidError (f_Name child))
           else updateState_children rest (children @ [childModel1\<lparr>fc_Uuid := StringValue u\<rparr>])))"

text \<open>\<^verbatim>\<open>datasetFolderModel.updateState\<close>. The Go method mutates the model and returns an
  error; every caller drops the model when an error comes back, so the model returns
  either the error or the updated model.\<close>

definition datasetFolderModel_updateState ::
  "datasetFolderModel \<Rightarrow> Folder \<Rightarrow> error + datasetFolderModel" where
  "datasetFolderModel_updateState model d =
     (let model1 = model\<lparr>fm_Name := StringValue (f_Name d)\<rparr> in
      case readDescription (f_Description d) (fm_Description model1) of
        Inl e \<Rightarrow> Inl e
      | Inr desc \<Rightarrow>
          (let model2 = model1\<lparr>fm_Description := desc\<rparr> in
           if f_Type d \<noteq> FolderTypeFolder then Inl (NestedFolderError (f_Type d))
           else
             (let model3 = model2\<lparr>fm_Type := StringValue (f_Type d),
                                   fm_Uuid := StringValue (uuid_String (f_Uuid d))\<rparr> in
              if \<not> IsNull (f_Children d) then
                (case MustGet (f_Children d) of
                   Inl e \<Rightarrow> Inl e
                 | Inr cs \<Rightarrow>
                     if length cs > 0 then
                       (case updateState_children cs [] of
                          Inl e \<Rightarrow> Inl e
                        | Inr children \<Rightarrow> Inr (model3\<lparr>fm_Children := children\<rparr>))
                     else Inr model3)
              else Inr model3)))"

text \<open>The loop over the root entries in \<^verbatim>\<open>datasetFolderBaseModel.updateState\<close>; each
  \<^verbatim>\<open>folderModel\<close> starts as the zero value.\<close>

fun updateState_folders ::
  "Folder list \<Rightarrow> datasetFolderModel list \<Rightarrow> error + datasetFolderModel list" where
  "updateState_folders [] folders = Inr folders"
| "updateState_folders (folder # rest) folders =
     (let folderModel = \<lparr>fm_Name = StringValue (f_Name folder), fm_Description = StringNull,
                          fm_Type = StringNull, fm_Children = [], fm_Uuid = StringNull\<rparr> in
      case readDescription (f_Description folder) (fm_Description folderModel) of
        Inl e \<Rightarrow> Inl e
      | Inr desc \<Rightarrow>
          (let folderModel1 = folderModel\<lparr>fm_Description := desc\<rparr> in
           if f_Type folder \<noteq> FolderTypeFolder then Inl (RootTypeError (f_Type folder))
           else
             (case datasetFolderModel_updateState
                     (folderModel1\<lparr>fm_Type := StringValue (f_Type folder)\<rparr>) folder of
                Inl err \<Rightarrow> Inl err
              | Inr folderModel2 \<Rightarrow>
                  updateState_folders rest
                    (folders @ [folderModel2\<lparr>fm_Uuid := StringValue (uuid_String (f_Uuid folder))\<rparr>]))))"

definition datasetFolderBaseModel_updateState ::
  "('j \<Rightarrow> error + 'b) \<Rightarrow> ('b \<Rightarrow> error + Folder list) \<Rightarrow>
   datasetFolderBaseModel \<Rightarrow> 'j DatasetRestApiGet \<Rightarrow> error + datasetFolderBaseModel" where
  "datasetFolderBaseModel_updateState json_Marshal json_Unmarshal model d =
     (let model1 = model\<lparr>fb_DatasetId := Int64Value (ds_Id d),
                           fb_DatasetName := StringValue (ds_TableName d)\<rparr> in
      if IsNull (ds_Folders d) then Inr model1
      else
        (case MustGet (ds_Folders d) of
           Inl e \<Rightarrow> Inl e
         | Inr folders0 \<Rightarrow>
             (case mapToFolders json_Marshal json_Unmarshal folders0 of
                Inl err \<Rightarrow> Inl (Wrapped ''failed to map folders from API response'' err)
              | Inr typedFolders \<Rightarrow>
                  (case updateState_folders typedFolders [] of
                     Inl e \<Rightarrow> Inl e
                   | Inr folders \<Rightarrow> Inr (model1\<lparr>fb_Folders := folders\<rparr>)))))"

subsection \<open>Pinning children to the dataset's identifiers: \<^verbatim>\<open>resolveColumns\<close>\<close>








subsection \<open>Configuration to wire: \<^verbatim>\<open>toFolders\<close>\<close>

text \<open>The choice of a node's uuid, written out twice in the source (once for a folder,
  once for a child). \<^verbatim>\<open>uuid.New()\<close> draws from a source of randomness: the model takes
  the sequence of draws \<open>rnd\<close> and counts how many were used. \<^verbatim>\<open>uuid.Parse\<close> belongs to
  the UUID library and is a parameter.\<close>

definition assignUuid ::
  "(string \<Rightarrow> error + uuid) \<Rightarrow> (nat \<Rightarrow> uuid) \<Rightarrow> nat \<Rightarrow> tfstring \<Rightarrow> error + (uuid \<times> nat)" where
  "assignUuid uuid_Parse rnd n u =
     (if String_IsNull u \<or> ValueString u = [] \<or>
         ValueString u = ''00000000-0000-0000-0000-000000000000''
      then Inr (rnd n, Suc n)
      else (case uuid_Parse (ValueString u) of
              Inl err \<Rightarrow> Inl err
            | Inr v \<Rightarrow> Inr (v, n)))"

definition toDescription :: "tfstring \<Rightarrow> string nullable" where
  "toDescription d =
     (if \<not> String_IsNull d \<and> ValueString d \<noteq> [] then Value (ValueString d) else Unspecified)"

fun datasetFolderModel_toFolders_loop ::
  "(string \<Rightarrow> error + uuid) \<Rightarrow> (nat \<Rightarrow> uuid) \<Rightarrow> nat \<Rightarrow> datasetFolderChildModel list \<Rightarrow>
   Folder list \<Rightarrow> error + (Folder list \<times> nat)" where
  "datasetFolderModel_toFolders_loop uuid_Parse rnd n [] folders = Inr (folders, n)"
| "datasetFolderModel_toFolders_loop uuid_Parse rnd n (child # rest) folders =
     (case assignUuid uuid_Parse rnd n (fc_Uuid child) of
        Inl err \<Rightarrow> Inl err
      | Inr (u, n') \<Rightarrow>
          datasetFolderModel_toFolders_loop uuid_Parse rnd n' rest
            (folders @ [Folder (ValueString (fc_Name child)) (ValueString (fc_Type child))
                               (toDescription (fc_Description child)) u (Value [])]))"

definition datasetFolderModel_toFolders ::
  "(string \<Rightarrow> error + uuid) \<Rightarrow> (nat \<Rightarrow> uuid) \<Rightarrow> nat \<Rightarrow> datasetFolderModel \<Rightarrow>
   error + (Folder list \<times> nat)" where
  "datasetFolderModel_toFolders uuid_Parse rnd n model =
     datasetFolderModel_toFolders_loop uuid_Parse rnd n (fm_Children model) []"

fun datasetFolderBaseModel_toFolders_loop ::
  "(string \<Rightarrow> error + uuid) \<Rightarrow> (nat \<Rightarrow> uuid) \<Rightarrow> nat \<Rightarrow> datasetFolderModel list \<Rightarrow>
   Folder list \<Rightarrow> error + (Folder list \<times> nat)" where
  "datasetFolderBaseModel_toFolders_loop uuid_Parse rnd n [] folders = Inr (folders, n)"
| "datasetFolderBaseModel_toFolders_loop uuid_Parse rnd n (folderModel # rest) folders =
     (case assignUuid uuid_Parse rnd n (fm_Uuid folderModel) of
        Inl err \<Rightarrow> Inl err
      | Inr (u, n1) \<Rightarrow>
          (case datasetFolderModel_toFolders uuid_Parse rnd n1 folderModel of
             Inl err \<Rightarrow> Inl err
           | Inr (children, n2) \<Rightarrow>
               datasetFolderBaseModel_toFolders_loop uuid_Parse rnd n2 rest
                 (folders @ [Folder (ValueString (fm_Name folderModel))
                                    (ValueString (fm_Type folderModel))
                                    (toDescription (fm_Description folderModel)) u
                                    (if length children > 0 then Value children else Value [])])))"

definition datasetFolderBaseModel_toFolders ::
  "(string \<Rightarrow> error + uuid) \<Rightarrow> (nat \<Rightarrow> uuid) \<Rightarrow> nat \<Rightarrow> datasetFolderBaseModel \<Rightarrow>
   error + (Folder list \<times> nat)" where
  "datasetFolderBaseModel_toFolders uuid_Parse rnd n model =
     datasetFolderBaseModel_toFolders_loop uuid_Parse rnd n (fb_Folders model) []"

section \<open>Reading the flatten\<close>

text \<open>The declared uuids for which the flatten draws a new one, in the words of the
  specification: the null value, the empty string (which is also how \<^verbatim>\<open>ValueString\<close> reads
  a value that is not yet known), and the all-zero UUID.\<close>

definition needsNewUuid :: "tfstring \<Rightarrow> bool" where
  "needsNewUuid u \<longleftrightarrow>
     u = StringNull \<or> ValueString u = [] \<or> ValueString u = ''00000000-0000-0000-0000-000000000000''"

text \<open>The declared uuids in the order the flatten visits the nodes: each folder,
  followed by its children.\<close>

definition declaredUuids :: "datasetFolderModel list \<Rightarrow> tfstring list" where
  "declaredUuids folders = concat (map (\<lambda>fm. fm_Uuid fm # map fc_Uuid (fm_Children fm)) folders)"

text \<open>The wire nodes in the same order.\<close>

definition wireChildren :: "Folder \<Rightarrow> Folder list" where
  "wireChildren w = (case f_Children w of Value cs \<Rightarrow> cs | Null \<Rightarrow> [] | Unspecified \<Rightarrow> [])"

definition wireUuids :: "Folder list \<Rightarrow> uuid list" where
  "wireUuids wire = concat (map (\<lambda>w. f_Uuid w # map f_Uuid (wireChildren w)) wire)"

text \<open>The choice of uuids along a list of declared uuids, threading the count of draws.\<close>

fun assignUuids ::
  "(string \<Rightarrow> error + uuid) \<Rightarrow> (nat \<Rightarrow> uuid) \<Rightarrow> nat \<Rightarrow> tfstring list \<Rightarrow> error + (uuid list \<times> nat)" where
  "assignUuids uuid_Parse rnd n [] = Inr ([], n)"
| "assignUuids uuid_Parse rnd n (u # us) =
     (case assignUuid uuid_Parse rnd n u of
        Inl err \<Rightarrow> Inl err
      | Inr (v, n1) \<Rightarrow>
          (case assignUuids uuid_Parse rnd n1 us of
             Inl err \<Rightarrow> Inl err
           | Inr (vs, n2) \<Rightarrow> Inr (v # vs, n2)))"

section \<open>Attribute values of the plugin framework\<close>

text \<open>Collections and objects of the plugin framework (\<^verbatim>\<open>types.Set\<close>, \<^verbatim>\<open>types.List\<close>,
  \<^verbatim>\<open>types.Object\<close>) are null, unknown, or known; their elements are attribute values of
  any kind (\<^verbatim>\<open>attr.Value\<close>), which the code narrows with type assertions. A set or list is
  read through \<^verbatim>\<open>Elements()\<close>, an object through \<^verbatim>\<open>Attributes()\<close>.\<close>

datatype 'a tfstate = TfNull | TfUnknown | TfKnown 'a

datatype attr_value =
    AttrString tfstring
  | AttrInt64 tfint64
  | AttrBool tfbool
  | AttrObject "(string \<times> attr_value) list tfstate"
  | AttrCollection "attr_value list tfstate"

type_synonym tfobject = "(string \<times> attr_value) list tfstate"

type_synonym tfcollection = "attr_value list tfstate"

fun Tf_IsNull :: "'a tfstate \<Rightarrow> bool" where
  "Tf_IsNull TfNull = True"
| "Tf_IsNull TfUnknown = False"
| "Tf_IsNull (TfKnown v) = False"

fun Elements :: "tfcollection \<Rightarrow> attr_value list" where
  "Elements TfNull = []"
| "Elements TfUnknown = []"
| "Elements (TfKnown es) = es"

fun Attributes :: "tfobject \<Rightarrow> (string \<rightharpoonup> attr_value)" where
  "Attributes TfNull = Map.empty"
| "Attributes TfUnknown = Map.empty"
| "Attributes (TfKnown as) = map_of as"

section \<open>Dataset metrics: \<^verbatim>\<open>model_dataset_metrics.go\<close>\<close>

record datasetMetric =
  dm_Id :: tfint64
  dm_Currency :: tfobject
  dm_D3format :: tfstring
  dm_Description :: tfstring
  dm_Expression :: tfstring
  dm_CertifiedBy :: tfstring
  dm_CertificationDetails :: tfstring
  dm_MetricName :: tfstring
  dm_VerboseName :: tfstring
  dm_WarningText :: tfstring

record datasetMetricsExtraCertification =
  cert_CertifiedBy :: string
  cert_CertificationDetails :: string

record datasetMetricsExtra =
  extra_Certification :: datasetMetricsExtraCertification

text \<open>\<^verbatim>\<open>toExtra\<close>; \<^verbatim>\<open>json.Marshal\<close> is a parameter.\<close>

definition datasetMetric_toExtra ::
  "(datasetMetricsExtra \<Rightarrow> error + string) \<Rightarrow> datasetMetric \<Rightarrow> error + string" where
  "datasetMetric_toExtra json_Marshal model =
     (if String_IsNull (dm_CertifiedBy model) \<and> String_IsNull (dm_CertificationDetails model)
      then Inr []
      else
        (let extraData =
               \<lparr>extra_Certification =
                  \<lparr>cert_CertifiedBy = ValueString (dm_CertifiedBy model),
                   cert_CertificationDetails = ValueString (dm_CertificationDetails model)\<rparr>\<rparr> in
         case json_Marshal extraData of
           Inl err \<Rightarrow> Inl (Wrapped ''failed to marshal extra data for metric'' err)
         | Inr extraBytes \<Rightarrow> Inr extraBytes))"

text \<open>\<^verbatim>\<open>parseCertification\<close>; \<^verbatim>\<open>json.Unmarshal\<close> into a zero-valued
  \<^verbatim>\<open>datasetMetricsExtra\<close> is a parameter. \<^verbatim>\<open>MustGet\<close> panics on an extra that was not sent.\<close>

definition datasetMetric_parseCertification ::
  "(string \<Rightarrow> error + datasetMetricsExtra) \<Rightarrow> datasetMetric \<Rightarrow> DatasetRestApiGetSqlMetric \<Rightarrow>
   error + datasetMetric" where
  "datasetMetric_parseCertification json_Unmarshal model d =
     (if \<not> IsNull (met_Extra d) then
        (case MustGet (met_Extra d) of
           Inl e \<Rightarrow> Inl e
         | Inr s \<Rightarrow>
             if s \<noteq> [] then
               (case json_Unmarshal s of
                  Inl err \<Rightarrow> Inl (Wrapped ''failed to parse extra field for metric'' err)
                | Inr extraData \<Rightarrow>
                    (let model1 =
                           (if cert_CertifiedBy (extra_Certification extraData) \<noteq> []
                            then model\<lparr>dm_CertifiedBy :=
                                         StringValue (cert_CertifiedBy (extra_Certification extraData))\<rparr>
                            else model);
                         model2 =
                           (if cert_CertificationDetails (extra_Certification extraData) \<noteq> []
                            then model1\<lparr>dm_CertificationDetails :=
                                          StringValue (cert_CertificationDetails (extra_Certification extraData))\<rparr>
                            else model1)
                     in Inr model2))
             else Inr model)
      else Inr model)"

text \<open>What a declared certification field reads as after packing and parsing: a field
  that reads as the empty string (null, unknown or declared empty) comes back null.\<close>

definition parsedBack :: "tfstring \<Rightarrow> tfstring" where
  "parsedBack u = (if ValueString u = [] then StringNull else StringValue (ValueString u))"

text \<open>The certification object that \<^verbatim>\<open>toExtra\<close> hands to the JSON encoder.\<close>

definition certificationOf :: "datasetMetric \<Rightarrow> datasetMetricsExtra" where
  "certificationOf model =
     \<lparr>extra_Certification =
        \<lparr>cert_CertifiedBy = ValueString (dm_CertifiedBy model),
         cert_CertificationDetails = ValueString (dm_CertificationDetails model)\<rparr>\<rparr>"

section \<open>Name resolution: \<^verbatim>\<open>model_role_permission.go\<close>, \<^verbatim>\<open>model_group_role_binding.go\<close>\<close>

text \<open>The fields of the listed remote entities that the resolvers read.\<close>

record SupersetRoleApiGetList =
  role_Id :: int
  role_Name :: string

record SupersetGroupApiGetList =
  group_Id :: int
  group_Name :: string

record SupersetPermissionApiGetList =
  perm_Id :: int
  perm_Permission_Name :: string
  perm_ViewMenu_Name :: string

record SupersetRolePermissionApiGetList =
  rp_Id :: int
  rp_PermissionName :: string
  rp_ViewMenuName :: string

record userBaseModel =
  um_Id :: tfint64
  um_Username :: tfstring
  um_Email :: tfstring
  um_FirstName :: tfstring
  um_LastName :: tfstring
  um_Password :: tfstring
  um_RoleNames :: tfcollection
  um_GroupNames :: tfcollection
  um_Active :: tfbool

record groupRoleBindingBaseModel =
  gb_GroupId :: tfint64
  gb_GroupName :: tfstring
  gb_RoleNames :: tfcollection

record rolePermissionBaseModel =
  rpm_RoleId :: tfint64
  rpm_RoleName :: tfstring
  rpm_Permissions :: tfcollection

text \<open>The second loop of \<^verbatim>\<open>resolveGroupIDsFromNames\<close> and of \<^verbatim>\<open>resolveRoleIDsFromNames\<close>
  (the same text in both): the element is asserted to be a string, which panics on any
  other kind of value, and read with \<^verbatim>\<open>ValueString()\<close>.\<close>

fun resolveIDsFromNames_loop ::
  "(string \<rightharpoonup> int) \<Rightarrow> attr_value list \<Rightarrow> int list \<Rightarrow> string list \<Rightarrow> error + (int list \<times> string list)" where
  "resolveIDsFromNames_loop m [] ids notFound = Inr (ids, notFound)"
| "resolveIDsFromNames_loop m (r # rest) ids notFound =
     (case r of
        AttrString s \<Rightarrow>
          (let nameAttrValue = ValueString s in
           case m nameAttrValue of
             None \<Rightarrow> resolveIDsFromNames_loop m rest ids (notFound @ [nameAttrValue])
           | Some sourceId \<Rightarrow> resolveIDsFromNames_loop m rest (ids @ [sourceId]) notFound)
      | AttrInt64 v \<Rightarrow> Inl (Panic ''interface conversion: attr.Value is not types.String'')
      | AttrBool v \<Rightarrow> Inl (Panic ''interface conversion: attr.Value is not types.String'')
      | AttrObject v \<Rightarrow> Inl (Panic ''interface conversion: attr.Value is not types.String'')
      | AttrCollection v \<Rightarrow> Inl (Panic ''interface conversion: attr.Value is not types.String''))"

definition resolveGroupIDsFromNames ::
  "userBaseModel \<Rightarrow> SupersetGroupApiGetList list \<Rightarrow> error + (int list \<times> string list)" where
  "resolveGroupIDsFromNames model sourceGroups =
     (if Tf_IsNull (um_GroupNames model) then Inr ([], [])
      else
        (let sourceGroupNameIdMap = fold (\<lambda>g m. m(group_Name g \<mapsto> group_Id g)) sourceGroups Map.empty
         in resolveIDsFromNames_loop sourceGroupNameIdMap (Elements (um_GroupNames model)) [] []))"

definition resolveRoleIDsFromNames ::
  "userBaseModel \<Rightarrow> SupersetRoleApiGetList list \<Rightarrow> error + (int list \<times> string list)" where
  "resolveRoleIDsFromNames model sourceRoles =
     (if Tf_IsNull (um_RoleNames model) then Inr ([], [])
      else
        (let sourceRoleNameIdMap = fold (\<lambda>r m. m(role_Name r \<mapsto> role_Id r)) sourceRoles Map.empty
         in resolveIDsFromNames_loop sourceRoleNameIdMap (Elements (um_RoleNames model)) [] []))"

text \<open>The loop of \<^verbatim>\<open>groupRoleBindingBaseModel.resolveRoleIds\<close>, which also panics on a null
  name.\<close>

fun resolveRoleIds_loop ::
  "(string \<rightharpoonup> int) \<Rightarrow> attr_value list \<Rightarrow> int list \<Rightarrow> string list \<Rightarrow> error + (int list \<times> string list)" where
  "resolveRoleIds_loop m [] ids notFoundRoles = Inr (ids, notFoundRoles)"
| "resolveRoleIds_loop m (p # rest) ids notFoundRoles =
     (case p of
        AttrString pv \<Rightarrow>
          if String_IsNull pv then Inl (Panic ''unexpected type of role name attribute value'')
          else
            (let roleNameAttrValue = ValueString pv in
             case m roleNameAttrValue of
               None \<Rightarrow> resolveRoleIds_loop m rest ids (notFoundRoles @ [roleNameAttrValue])
             | Some sourceRoleId \<Rightarrow> resolveRoleIds_loop m rest (ids @ [sourceRoleId]) notFoundRoles)
      | AttrInt64 v \<Rightarrow> Inl (Panic ''unexpected type of role name attribute value'')
      | AttrBool v \<Rightarrow> Inl (Panic ''unexpected type of role name attribute value'')
      | AttrObject v \<Rightarrow> Inl (Panic ''unexpected type of role name attribute value'')
      | AttrCollection v \<Rightarrow> Inl (Panic ''unexpected type of role name attribute value''))"

definition resolveRoleIds ::
  "groupRoleBindingBaseModel \<Rightarrow> SupersetRoleApiGetList list \<Rightarrow> error + (int list \<times> string list)" where
  "resolveRoleIds model sourceRoles =
     (if Tf_IsNull (gb_RoleNames model) then Inr ([], [])
      else
        (let sourceRoleNameIdMap = fold (\<lambda>r m. m(role_Name r \<mapsto> role_Id r)) sourceRoles Map.empty
         in resolveRoleIds_loop sourceRoleNameIdMap (Elements (gb_RoleNames model)) [] []))"

text \<open>Reading one string attribute of a permission object, as \<^verbatim>\<open>resolvePermissions\<close> does
  for \<open>permission_name\<close> and for \<open>view_menu_name\<close>: the attribute must exist, be a string
  and not be null; each failure is a panic.\<close>

definition readPermissionAttr :: "tfobject \<Rightarrow> string \<Rightarrow> error + string" where
  "readPermissionAttr permissionObj key =
     (case Attributes permissionObj key of
        None \<Rightarrow> Inl (Panic (key @ '' attribute is missing in permission object''))
      | Some a \<Rightarrow>
          (case a of
             AttrString v \<Rightarrow>
               if String_IsNull v then Inl (Panic (''unexpected type of '' @ key @ '' attribute value''))
               else Inr (ValueString v)
           | AttrInt64 v \<Rightarrow> Inl (Panic (''unexpected type of '' @ key @ '' attribute value''))
           | AttrBool v \<Rightarrow> Inl (Panic (''unexpected type of '' @ key @ '' attribute value''))
           | AttrObject v \<Rightarrow> Inl (Panic (''unexpected type of '' @ key @ '' attribute value''))
           | AttrCollection v \<Rightarrow> Inl (Panic (''unexpected type of '' @ key @ '' attribute value''))))"

fun resolvePermissions_loop ::
  "(string \<rightharpoonup> int) \<Rightarrow> attr_value list \<Rightarrow> SupersetRolePermissionApiGetList list \<Rightarrow> string list \<Rightarrow>
   error + (SupersetRolePermissionApiGetList list \<times> string list)" where
  "resolvePermissions_loop m [] permissions notFoundPermissions = Inr (permissions, notFoundPermissions)"
| "resolvePermissions_loop m (p # rest) permissions notFoundPermissions =
     (case p of
        AttrObject permissionObj \<Rightarrow>
          if Tf_IsNull permissionObj then Inl (Panic ''unexpected type of permission attribute value'')
          else
            (case readPermissionAttr permissionObj ''permission_name'' of
               Inl e \<Rightarrow> Inl e
             | Inr permissionNameAttrValue \<Rightarrow>
                 (case readPermissionAttr permissionObj ''view_menu_name'' of
                    Inl e \<Rightarrow> Inl e
                  | Inr viewMenuNameAttrValue \<Rightarrow>
                      (let fullPermissionName = permissionNameAttrValue @ ''_'' @ viewMenuNameAttrValue in
                       case m fullPermissionName of
                         None \<Rightarrow>
                           resolvePermissions_loop m rest permissions
                             (notFoundPermissions @ [fullPermissionName])
                       | Some sourcePermissionId \<Rightarrow>
                           resolvePermissions_loop m rest
                             (permissions @ [\<lparr>rp_Id = sourcePermissionId,
                                               rp_PermissionName = permissionNameAttrValue,
                                               rp_ViewMenuName = viewMenuNameAttrValue\<rparr>])
                             notFoundPermissions)))
      | AttrString v \<Rightarrow> Inl (Panic ''unexpected type of permission attribute value'')
      | AttrInt64 v \<Rightarrow> Inl (Panic ''unexpected type of permission attribute value'')
      | AttrBool v \<Rightarrow> Inl (Panic ''unexpected type of permission attribute value'')
      | AttrCollection v \<Rightarrow> Inl (Panic ''unexpected type of permission attribute value''))"

definition resolvePermissions ::
  "rolePermissionBaseModel \<Rightarrow> SupersetPermissionApiGetList list \<Rightarrow>
   error + (SupersetRolePermissionApiGetList list \<times> string list)" where
  "resolvePermissions model sourcePermissions =
     (if Tf_IsNull (rpm_Permissions model) then Inr ([], [])
      else
        (let sourcePermissionNameIdMap =
               fold (\<lambda>p m. m(perm_Permission_Name p @ ''_'' @ perm_ViewMenu_Name p \<mapsto> perm_Id p))
                    sourcePermissions Map.empty
         in resolvePermissions_loop sourcePermissionNameIdMap (Elements (rpm_Permissions model)) [] []))"

text \<open>The lookup table of a source collection as a list of key and id, in the order of the
  collection; \<open>map_of (rev table)\<close> reads the id of the last entity with a key, as the Go
  map does after the first loop.\<close>

definition roleTable :: "SupersetRoleApiGetList list \<Rightarrow> (string \<times> int) list" where
  "roleTable sourceRoles = map (\<lambda>r. (role_Name r, role_Id r)) sourceRoles"

definition groupTable :: "SupersetGroupApiGetList list \<Rightarrow> (string \<times> int) list" where
  "groupTable sourceGroups = map (\<lambda>g. (group_Name g, group_Id g)) sourceGroups"

definition permissionTable :: "SupersetPermissionApiGetList list \<Rightarrow> (string \<times> int) list" where
  "permissionTable sourcePermissions =
     map (\<lambda>p. (perm_Permission_Name p @ ''_'' @ perm_ViewMenu_Name p, perm_Id p)) sourcePermissions"

text \<open>The ids of the names that the table knows, in the order of the names, and the
  names that it does not know.\<close>

definition resolvedIds :: "(string \<times> int) list \<Rightarrow> string list \<Rightarrow> int list" where
  "resolvedIds table names =
     map (\<lambda>n. the (map_of (rev table) n)) (filter (\<lambda>n. n \<in> fst ` set table) names)"

definition unresolved :: "(string \<times> int) list \<Rightarrow> string list \<Rightarrow> string list" where
  "unresolved table names = filter (\<lambda>n. n \<notin> fst ` set table) names"

text \<open>A declared permission as the object of the two string attributes.\<close>

definition permissionObject :: "tfstring \<times> tfstring \<Rightarrow> attr_value" where
  "permissionObject pv =
     AttrObject (TfKnown [(''permission_name'', AttrString (fst pv)),
                          (''view_menu_name'', AttrString (snd pv))])"

definition permissionKey :: "tfstring \<times> tfstring \<Rightarrow> string" where
  "permissionKey pv = ValueString (fst pv) @ ''_'' @ ValueString (snd pv)"

text \<open>The permissions that the table knows, with their ids, in the order of the declared
  pairs.\<close>

definition resolvedPermissions ::
  "(string \<times> int) list \<Rightarrow> (tfstring \<times> tfstring) list \<Rightarrow> SupersetRolePermissionApiGetList list" where
  "resolvedPermissions table pvs =
     map (\<lambda>pv. \<lparr>rp_Id = the (map_of (rev table) (permissionKey pv)),
                 rp_PermissionName = ValueString (fst pv),
                 rp_ViewMenuName = ValueString (snd pv)\<rparr>)
         (filter (\<lambda>pv. permissionKey pv \<in> fst ` set table) pvs)"

section \<open>Paginated lists: \<^verbatim>\<open>client_wrapper.go\<close>\<close>










section \<open>Delete handlers: \<^verbatim>\<open>resource_user.go\<close>, \<^verbatim>\<open>resource_dataset_metrics.go\<close>, the folder resource\<close>

text \<open>The diagnostics of a response: severity, summary, and the detail as the format
  string of the source with its two arguments, the id and the error.\<close>

datatype severity = SeverityWarning | SeverityError

record diagnostic =
  diag_Severity :: severity
  diag_Summary :: string
  diag_Detail :: string
  diag_Id :: int
  diag_Err :: error

definition AddWarning :: "diagnostic list \<Rightarrow> string \<Rightarrow> string \<Rightarrow> int \<Rightarrow> error \<Rightarrow> diagnostic list" where
  "AddWarning diags summary detail i err =
     diags @ [\<lparr>diag_Severity = SeverityWarning, diag_Summary = summary, diag_Detail = detail,
               diag_Id = i, diag_Err = err\<rparr>]"

definition AddError :: "diagnostic list \<Rightarrow> string \<Rightarrow> string \<Rightarrow> int \<Rightarrow> error \<Rightarrow> diagnostic list" where
  "AddError diags summary detail i err =
     diags @ [\<lparr>diag_Severity = SeverityError, diag_Summary = summary, diag_Detail = detail,
               diag_Id = i, diag_Err = err\<rparr>]"

definition HasError :: "diagnostic list \<Rightarrow> bool" where
  "HasError diags = list_ex (\<lambda>d. diag_Severity d = SeverityError) diags"

text \<open>\<^verbatim>\<open>client.IsNotFound\<close>: \<^verbatim>\<open>errors.As\<close> finds a \<^verbatim>\<open>NotFoundError\<close> anywhere in the chain
  of wrapped errors; a nil error is not one.\<close>

fun IsNotFound :: "error \<Rightarrow> bool" where
  "IsNotFound NotFoundError = True"
| "IsNotFound (Wrapped msg e) = IsNotFound e"
| "IsNotFound (Panic msg) = False"
| "IsNotFound (RemoteError msg) = False"
| "IsNotFound (StatusError msg code body) = False"
| "IsNotFound (RootTypeError t) = False"
| "IsNotFound (NestedFolderError t) = False"
| "IsNotFound (MissingUuidError n) = False"
| "IsNotFound (UuidParseError s) = False"
| "IsNotFound (JsonError s) = False"

text \<open>The update body of a user, with the fields the provider sets. A Go slice is absent
  (\<open>None\<close>) or present, possibly empty.\<close>

record SupersetUserApiPut =
  uput_Active :: bool
  uput_Email :: string
  uput_FirstName :: string
  uput_LastName :: string
  uput_Password :: string
  uput_Groups :: "int list option"
  uput_Roles :: "int list option"

text \<open>The remote calls a handler makes, in order, and the client as the answers of the
  remote service (whether each call fails); a handler makes each call at most once. The
  response of a handler holds its diagnostics, whether the handler itself removed the
  resource from the state (\<^verbatim>\<open>RemoveResource\<close>), and the calls made.\<close>

datatype 'p client_call =
    CallDeleteUser int
  | CallUpdateUser int SupersetUserApiPut
  | CallFindDataset string
  | CallUpdateDataset int 'p

record UserClient =
  client_DeleteUser :: "int \<Rightarrow> error option"
  client_UpdateUser :: "int \<Rightarrow> SupersetUserApiPut \<Rightarrow> error option"

record 'p DeleteResponse =
  del_Diagnostics :: "diagnostic list"
  del_StateRemoved :: bool
  del_Calls :: "'p client_call list"

text \<open>\<^verbatim>\<open>UserResource.Delete\<close>. \<open>stateDiags\<close> are the diagnostics of reading the prior state,
  which the handler appends without looking at them.\<close>

definition UserResource_Delete ::
  "UserClient \<Rightarrow> diagnostic list \<Rightarrow> userBaseModel \<Rightarrow> 'p DeleteResponse" where
  "UserResource_Delete client stateDiags state =
     (let diags0 = stateDiags;
          userID = ValueInt64 (um_Id state) in
      case client_DeleteUser client userID of
        None \<Rightarrow>
          \<lparr>del_Diagnostics = diags0, del_StateRemoved = False, del_Calls = [CallDeleteUser userID]\<rparr>
      | Some err \<Rightarrow>
          (let diags1 = AddWarning diags0 ''Deletion Error'' ''Unable to delete user with ID %d: %s''
                          userID err;
               body = \<lparr>uput_Active = False, uput_Email = [], uput_FirstName = [], uput_LastName = [],
                       uput_Password = [], uput_Groups = Some [], uput_Roles = None\<rparr>;
               calls = [CallDeleteUser userID, CallUpdateUser userID body] in
           case client_UpdateUser client userID body of
             Some err2 \<Rightarrow>
               \<lparr>del_Diagnostics =
                  AddError diags1 ''Client Error''
                    ''Unable to deactivate user with ID %d:, so deactivate user. error: %s'' userID err2,
                del_StateRemoved = False, del_Calls = calls\<rparr>
           | None \<Rightarrow> \<lparr>del_Diagnostics = diags1, del_StateRemoved = False, del_Calls = calls\<rparr>))"

text \<open>The update body of a dataset, with the fields the provider sets, and its zero
  value.\<close>

record DatasetColumnsPut =
  cput_Id :: int
  cput_ColumnName :: string

record DatasetMetricsPut =
  mput_Id :: int
  mput_MetricName :: string
  mput_Expression :: string
  mput_Extra :: "string nullable"

record DatasetRestApiPut =
  dput_AlwaysFilterMainDttm :: bool
  dput_CacheTimeout :: "int nullable"
  dput_Catalog :: "string nullable"
  dput_Columns :: "DatasetColumnsPut list option"
  dput_DatabaseId :: int
  dput_Description :: "string nullable"
  dput_Extra :: "string nullable"
  dput_FetchValuesPredicate :: "string nullable"
  dput_FilterSelectEnabled :: "bool nullable"
  dput_Folders :: "Folder list option"
  dput_Metrics :: "DatasetMetricsPut list option"
  dput_NormalizeColumns :: "bool nullable"
  dput_Owners :: "int list option"
  dput_Schema :: "string nullable"
  dput_Sql :: "string nullable"
  dput_TableName :: "string nullable"

definition zeroDatasetRestApiPut :: DatasetRestApiPut where
  "zeroDatasetRestApiPut =
     \<lparr>dput_AlwaysFilterMainDttm = False, dput_CacheTimeout = Unspecified, dput_Catalog = Unspecified,
      dput_Columns = None, dput_DatabaseId = 0, dput_Description = Unspecified,
      dput_Extra = Unspecified, dput_FetchValuesPredicate = Unspecified,
      dput_FilterSelectEnabled = Unspecified, dput_Folders = None, dput_Metrics = None,
      dput_NormalizeColumns = Unspecified, dput_Owners = None, dput_Schema = Unspecified,
      dput_Sql = Unspecified, dput_TableName = Unspecified\<rparr>"

text \<open>The dataset calls of the client: \<^verbatim>\<open>FindDataset\<close> answers with an error or with the id
  of the dataset found.\<close>

record DatasetClient =
  client_FindDataset :: "string \<Rightarrow> error + int"
  client_UpdateDataset :: "int \<Rightarrow> DatasetRestApiPut \<Rightarrow> error option"

text \<open>The body shared by \<^verbatim>\<open>datasetMetricsResource.Delete\<close> and
  \<^verbatim>\<open>datasetFolderResource.Delete\<close>, which differ in the update body \<open>putData\<close> only.\<close>

definition datasetSubResource_Delete ::
  "DatasetRestApiPut \<Rightarrow> DatasetClient \<Rightarrow> diagnostic list \<Rightarrow> tfstring \<Rightarrow>
   DatasetRestApiPut DeleteResponse" where
  "datasetSubResource_Delete putData client stateDiags datasetName =
     (let diags0 = stateDiags;
          name = ValueString datasetName in
      case client_FindDataset client name of
        Inl err \<Rightarrow>
          if IsNotFound err
          then \<lparr>del_Diagnostics = diags0, del_StateRemoved = True, del_Calls = [CallFindDataset name]\<rparr>
          else \<lparr>del_Diagnostics =
                   AddError diags0 ''Client Error'' ''Unable to find dataset with name '%s': %s'' 0 err,
                 del_StateRemoved = False, del_Calls = [CallFindDataset name]\<rparr>
      | Inr datasetId \<Rightarrow>
          (let calls = [CallFindDataset name, CallUpdateDataset datasetId putData] in
           case client_UpdateDataset client datasetId putData of
             Some err \<Rightarrow>
               \<lparr>del_Diagnostics =
                  AddError diags0 ''Client Error'' ''Unable to update dataset with ID %d: %s''
                    datasetId err,
                del_StateRemoved = False, del_Calls = calls\<rparr>
           | None \<Rightarrow> \<lparr>del_Diagnostics = diags0, del_StateRemoved = False, del_Calls = calls\<rparr>))"

definition datasetMetricsResource_Delete ::
  "DatasetClient \<Rightarrow> diagnostic list \<Rightarrow> tfstring \<Rightarrow> DatasetRestApiPut DeleteResponse" where
  "datasetMetricsResource_Delete client stateDiags datasetName =
     datasetSubResource_Delete (zeroDatasetRestApiPut\<lparr>dput_Metrics := Some []\<rparr>)
       client stateDiags datasetName"

definition datasetFolderResource_Delete ::
  "DatasetClient \<Rightarrow> diagnostic list \<Rightarrow> tfstring \<Rightarrow> DatasetRestApiPut DeleteResponse" where
  "datasetFolderResource_Delete client stateDiags datasetName =
     datasetSubResource_Delete (zeroDatasetRestApiPut\<lparr>dput_Folders := Some []\<rparr>)
       client stateDiags datasetName"

text \<open>The body of the fallback update of a user: inactive, with an empty list of groups and
  nothing else set.\<close>

definition deactivateBody :: SupersetUserApiPut where
  "deactivateBody =
     \<lparr>uput_Active = False, uput_Email = [], uput_FirstName = [], uput_LastName = [],
      uput_Password = [], uput_Groups = Some [], uput_Roles = None\<rparr>"

section \<open>Example values\<close>

text \<open>A declared column, a columns model and a server column.\<close>

definition exampleDeclaredColumn :: datasetColumn where
  "exampleDeclaredColumn =
     \<lparr>dc_Id = Int64Unknown, dc_AdvancedDataType = StringNull, dc_ColumnName = StringValue ''amount'',
      dc_Description = StringValue ''Amount paid'', dc_Expression = StringNull, dc_Extra = StringNull,
      dc_Filterable = BoolValue True, dc_Groupby = BoolValue True, dc_IsActive = BoolValue True,
      dc_IsDttm = BoolValue False, dc_Type = StringValue ''VARCHAR'', dc_VerboseName = StringNull\<rparr>"

definition exampleColumnsModel :: "datasetColumn list \<Rightarrow> datasetColumnsBaseModel" where
  "exampleColumnsModel cs =
     \<lparr>dcs_DatasetId = Int64Value 1, dcs_DatasetName = StringValue ''sales'', dcs_Columns = cs\<rparr>"

definition exampleServerColumn :: "string \<Rightarrow> int \<Rightarrow> string nullable \<Rightarrow> DatasetRestApiGetTableColumn" where
  "exampleServerColumn name i t =
     \<lparr>col_Id = i, col_ColumnName = name, col_Type = t, col_Uuid = Unspecified\<rparr>"

text \<open>A parser for the canonical 36-character text of a UUID, standing in for
  \<^verbatim>\<open>uuid.Parse\<close> in the examples.\<close>

definition hexVal :: "char \<Rightarrow> nat option" where
  "hexVal c =
     (let k = of_char c :: nat in
      if 48 \<le> k \<and> k \<le> 57 then Some (k - 48)
      else if 97 \<le> k \<and> k \<le> 102 then Some (k - 87)
      else if 65 \<le> k \<and> k \<le> 70 then Some (k - 55)
      else None)"

fun hexDigits :: "string \<Rightarrow> nat list option" where
  "hexDigits [] = Some []"
| "hexDigits (c # cs) =
     (case hexVal c of
        None \<Rightarrow> None
      | Some d \<Rightarrow> (case hexDigits cs of None \<Rightarrow> None | Some ds \<Rightarrow> Some (d # ds)))"

definition parseCanonical :: "string \<Rightarrow> error + uuid" where
  "parseCanonical s =
     (if length s = 36 \<and> s ! 8 = CHR ''-'' \<and> s ! 13 = CHR ''-'' \<and> s ! 18 = CHR ''-'' \<and> s ! 23 = CHR ''-''
      then (case hexDigits (take 8 s @ take 4 (drop 9 s) @ take 4 (drop 14 s) @ take 4 (drop 19 s) @ drop 24 s) of
              None \<Rightarrow> Inl (UuidParseError s)
            | Some ds \<Rightarrow> Inr (word_of_nat (foldl (\<lambda>a d. 16 * a + d) 0 ds)))
      else Inl (UuidParseError s))"

text \<open>Declared folders, and a fixed sequence of draws for \<^verbatim>\<open>uuid.New()\<close>.\<close>

definition exampleFolderChild :: "string \<Rightarrow> string \<Rightarrow> tfstring \<Rightarrow> datasetFolderChildModel" where
  "exampleFolderChild name type u =
     \<lparr>fc_Name = StringValue name, fc_Description = StringNull, fc_Type = StringValue type, fc_Uuid = u\<rparr>"

definition exampleFolder :: "string \<Rightarrow> tfstring \<Rightarrow> datasetFolderChildModel list \<Rightarrow> datasetFolderModel" where
  "exampleFolder type u children =
     \<lparr>fm_Name = StringValue ''Sales'', fm_Description = StringValue ''Sales figures'',
      fm_Type = StringValue type, fm_Children = children, fm_Uuid = u\<rparr>"

definition exampleFolders :: "datasetFolderModel list \<Rightarrow> datasetFolderBaseModel" where
  "exampleFolders folders =
     \<lparr>fb_DatasetId = Int64Value 1, fb_DatasetName = StringValue ''sales'', fb_Folders = folders\<rparr>"

definition exampleRnd :: "nat \<Rightarrow> uuid" where
  "exampleRnd k = word_of_nat (1000 + k)"

definition exampleMixedFolders :: datasetFolderBaseModel where
  "exampleMixedFolders =
     exampleFolders [exampleFolder ''folder'' StringNull
       [exampleFolderChild ''amount'' ''column'' (StringValue ''01234567-89ab-cdef-0123-456789abcdef''),
        exampleFolderChild ''total'' ''metric'' (StringValue ''00000000-0000-0000-0000-000000000000'')]]"

definition exampleMalformedFolders :: datasetFolderBaseModel where
  "exampleMalformedFolders =
     exampleFolders [exampleFolder ''folder'' StringNull
       [exampleFolderChild ''amount'' ''column'' (StringValue ''not-a-uuid'')]]"

text \<open>A wire tree with a folder inside a folder, and a dataset around it.\<close>

definition exampleNestedWire :: "Folder list" where
  "exampleNestedWire =
     [Folder ''Sales'' ''folder'' Unspecified 1
        (Value [Folder ''Inner'' ''folder'' Unspecified 2
                  (Value [Folder ''amount'' ''column'' Unspecified 3 (Value [])])])]"

definition exampleDataset ::
  "DatasetRestApiGetTableColumn list \<Rightarrow> DatasetRestApiGetSqlMetric list \<Rightarrow> 'j nullable \<Rightarrow> 'j DatasetRestApiGet" where
  "exampleDataset columns metrics folders =
     \<lparr>ds_Id = 1, ds_TableName = ''sales'', ds_Columns = columns, ds_Metrics = metrics,
      ds_Folders = folders\<rparr>"

text \<open>A dataset with two columns and a metric, for pinning folder children.\<close>

definition exampleServerMetric :: "string \<Rightarrow> int \<Rightarrow> uuid nullable \<Rightarrow> DatasetRestApiGetSqlMetric" where
  "exampleServerMetric name i u =
     \<lparr>met_Id = i, met_MetricName = name, met_Extra = Null, met_Uuid = u\<rparr>"


text \<open>A JSON encoder and decoder for the certification object, for strings without quotes,
  backslashes or control characters.\<close>

definition exampleJsonMarshal :: "datasetMetricsExtra \<Rightarrow> error + string" where
  \<open>exampleJsonMarshal e =
     Inr (''{"certification":{"certified_by":"'' @ cert_CertifiedBy (extra_Certification e) @
          ''","details":"'' @ cert_CertificationDetails (extra_Certification e) @ ''"}}'')\<close>

fun exampleStripPrefix :: "string \<Rightarrow> string \<Rightarrow> string option" where
  "exampleStripPrefix [] s = Some s"
| "exampleStripPrefix (p # ps) [] = None"
| "exampleStripPrefix (p # ps) (c # cs) = (if p = c then exampleStripPrefix ps cs else None)"

definition exampleJsonUnmarshal :: "string \<Rightarrow> error + datasetMetricsExtra" where
  \<open>exampleJsonUnmarshal s =
     (case exampleStripPrefix ''{"certification":{"certified_by":"'' s of
        None \<Rightarrow> Inl (JsonError s)
      | Some r1 \<Rightarrow>
          (case exampleStripPrefix ''","details":"'' (dropWhile (\<lambda>c. c \<noteq> CHR 0x22) r1) of
             None \<Rightarrow> Inl (JsonError s)
           | Some r2 \<Rightarrow>
               if dropWhile (\<lambda>c. c \<noteq> CHR 0x22) r2 = ''"}}''
               then Inr \<lparr>extra_Certification =
                           \<lparr>cert_CertifiedBy = takeWhile (\<lambda>c. c \<noteq> CHR 0x22) r1,
                            cert_CertificationDetails = takeWhile (\<lambda>c. c \<noteq> CHR 0x22) r2\<rparr>\<rparr>
               else Inl (JsonError s)))\<close>

text \<open>A metric with the given certification fields.\<close>

definition exampleMetric :: "tfstring \<Rightarrow> tfstring \<Rightarrow> datasetMetric" where
  "exampleMetric certifiedBy details =
     \<lparr>dm_Id = Int64Value 3, dm_Currency = TfNull, dm_D3format = StringNull,
      dm_Description = StringNull, dm_Expression = StringValue ''SUM(amount)'',
      dm_CertifiedBy = certifiedBy, dm_CertificationDetails = details,
      dm_MetricName = StringValue ''total'', dm_VerboseName = StringNull,
      dm_WarningText = StringNull\<rparr>"

text \<open>A user, a group binding and a role's permissions with the given declared names.\<close>

definition exampleUser :: "tfcollection \<Rightarrow> tfcollection \<Rightarrow> userBaseModel" where
  "exampleUser roleNames groupNames =
     \<lparr>um_Id = Int64Value 1, um_Username = StringValue ''jdoe'', um_Email = StringValue ''jdoe@example.com'',
      um_FirstName = StringValue ''J'', um_LastName = StringValue ''Doe'', um_Password = StringNull,
      um_RoleNames = roleNames, um_GroupNames = groupNames, um_Active = BoolValue True\<rparr>"

definition exampleBinding :: "tfcollection \<Rightarrow> groupRoleBindingBaseModel" where
  "exampleBinding roleNames =
     \<lparr>gb_GroupId = Int64Value 2, gb_GroupName = StringValue ''Analysts'', gb_RoleNames = roleNames\<rparr>"

definition exampleRolePermissions :: "tfcollection \<Rightarrow> rolePermissionBaseModel" where
  "exampleRolePermissions permissions =
     \<lparr>rpm_RoleId = Int64Value 1, rpm_RoleName = StringValue ''A'', rpm_Permissions = permissions\<rparr>"

definition exampleNamesABC :: "tfstring list" where
  "exampleNamesABC = [StringValue ''A'', StringValue ''B'', StringValue ''C'']"

definition examplePairs :: "(tfstring \<times> tfstring) list" where
  "examplePairs = [(StringValue ''can_read'', StringValue ''Chart''),
                   (StringValue ''can_write'', StringValue ''Chart''),
                   (StringValue ''can_read'', StringValue ''Dataset'')]"




text \<open>A remote service that refuses to delete users, with an update that works or not; and
  dataset services that find the dataset \<open>sales\<close> under id 12, or find nothing.\<close>

definition exampleUserClient :: "error option \<Rightarrow> UserClient" where
  "exampleUserClient updateAnswer =
     \<lparr>client_DeleteUser = (\<lambda>userID. Some (StatusError ''failed to delete user'' 422 ''referenced'')),
      client_UpdateUser = (\<lambda>userID body. updateAnswer)\<rparr>"

definition exampleDatasetClient :: "error + int \<Rightarrow> DatasetClient" where
  "exampleDatasetClient findAnswer =
     \<lparr>client_FindDataset = (\<lambda>name. findAnswer),
      client_UpdateDataset = (\<lambda>datasetId body. None)\<rparr>"

section \<open>Dataset columns: reconciliation\<close>

lemma find_snoc:
  "find P (xs @ [x]) = (case find P xs of None \<Rightarrow> (if P x then Some x else None) | Some y \<Rightarrow> Some y)"
  by (induction xs) simp_all

lemma mapColumnNameToColumn_fold:
  "fold (\<lambda>c m. m(col_ColumnName c \<mapsto> c)) columns m0 k =
     (case find (\<lambda>c. col_ColumnName c = k) (rev columns) of None \<Rightarrow> m0 k | Some c \<Rightarrow> Some c)"
  by (induction columns arbitrary: m0) (auto simp: find_snoc split: option.splits)

lemma mapColumnNameToColumn_find:
  "mapColumnNameToColumn columns k = find (\<lambda>c. col_ColumnName c = k) (rev columns)"
  by (simp add: mapColumnNameToColumn_def mapColumnNameToColumn_fold split: option.splits)

lemma find_Some_set: "find P xs = Some x \<Longrightarrow> x \<in> set xs \<and> P x"
  by (induction xs) (auto split: if_splits)

lemma resovleColumn_reconciled:
  assumes "\<forall>c\<in>set columns. col_Type c \<noteq> Unspecified"
  shows "resovleColumn (mapColumnNameToColumn columns) column = Inr (reconciledColumn columns column)"
proof (cases "find (\<lambda>c. col_ColumnName c = ValueString (dc_ColumnName column)) (rev columns)")
  case None
  then show ?thesis
    by (simp add: resovleColumn_def reconciledColumn_def mapColumnNameToColumn_find)
next
  case (Some c)
  then have "c \<in> set columns"
    using find_Some_set by fastforce
  with assms have "col_Type c \<noteq> Unspecified" by blast
  with Some show ?thesis
    by (cases "col_Type c")
       (simp_all add: resovleColumn_def reconciledColumn_def mapColumnNameToColumn_find Let_def)
qed

lemma resovleColumns_loop_map:
  assumes "\<forall>column\<in>set decl. resovleColumn m column = Inr (f column)"
  shows "resovleColumns_loop m decl acc = Inr (acc @ map f decl)"
  using assms by (induction decl arbitrary: acc) simp_all

text \<open>
  C1 (as amended). Reconciling the declared columns against the server's list returns
  one entry per declared column, in the declared order. A declared column whose
  \<open>column_name\<close> is the name of a server column takes the id of the last server column of
  that name whatever id it declared, and takes that column's type when the server's type
  is a non-empty value; when the server's type is null or empty the declared type stays.
  A declared column with no server column of its name is passed through unchanged.
  (A matched server column whose type field was not sent at all is left out: there
  \<^verbatim>\<open>MustGet\<close> panics.)
\<close>

theorem resovleColumns_reconciles:
  assumes "\<forall>c\<in>set columns. col_Type c \<noteq> Unspecified"
  shows "resovleColumns model columns = Inr (map (reconciledColumn columns) (dcs_Columns model))"
  unfolding resovleColumns_def
  using resovleColumns_loop_map [of "dcs_Columns model" "mapColumnNameToColumn columns"
          "reconciledColumn columns" "[]"]
        resovleColumn_reconciled [OF assms]
  by simp

theorem resovleColumns_reconciles_witness:
  "resovleColumns
     (exampleColumnsModel [exampleDeclaredColumn, exampleDeclaredColumn\<lparr>dc_ColumnName := StringValue ''city''\<rparr>])
     [exampleServerColumn ''amount'' 7 (Value ''BIGINT''), exampleServerColumn ''region'' 8 Null]
   = Inr [exampleDeclaredColumn\<lparr>dc_Id := Int64Value 7, dc_Type := StringValue ''BIGINT''\<rparr>,
          exampleDeclaredColumn\<lparr>dc_ColumnName := StringValue ''city''\<rparr>]"
proof -
  have h: "\<forall>c\<in>set [exampleServerColumn ''amount'' 7 (Value ''BIGINT''), exampleServerColumn ''region'' 8 Null].
             col_Type c \<noteq> Unspecified"
    by (simp add: exampleServerColumn_def)
  show ?thesis
    using resovleColumns_reconciles [OF h]
    by (simp add: reconciledColumn_def exampleColumnsModel_def exampleServerColumn_def
                  exampleDeclaredColumn_def)
qed

text \<open>
  The claim as first stated fails where the server has no type for the column: the
  declared column \<open>amount\<close> declares type \<open>VARCHAR\<close>, the server's column \<open>amount\<close> has a
  null type, and the output keeps \<open>VARCHAR\<close>.
\<close>

theorem resovleColumns_type_counterexample:
  "resovleColumns (exampleColumnsModel [exampleDeclaredColumn]) [exampleServerColumn ''amount'' 7 Null]
     = Inr [exampleDeclaredColumn\<lparr>dc_Id := Int64Value 7\<rparr>]
   \<and> dc_Type (exampleDeclaredColumn\<lparr>dc_Id := Int64Value 7\<rparr>) = StringValue ''VARCHAR''
   \<and> col_Type (exampleServerColumn ''amount'' 7 Null) = Null
   \<and> col_ColumnName (exampleServerColumn ''amount'' 7 Null) = ValueString (dc_ColumnName exampleDeclaredColumn)"
  by (simp add: resovleColumns_def mapColumnNameToColumn_def resovleColumn_def
                exampleColumnsModel_def exampleServerColumn_def exampleDeclaredColumn_def)

section \<open>Dataset folders: the flatten\<close>

lemma String_IsNull_iff: "String_IsNull u \<longleftrightarrow> u = StringNull"
  by (cases u) simp_all

lemma assignUuid_cases:
  "assignUuid p rnd n u =
     (if needsNewUuid u then Inr (rnd n, Suc n)
      else (case p (ValueString u) of Inl err \<Rightarrow> Inl err | Inr v \<Rightarrow> Inr (v, n)))"
  by (simp add: assignUuid_def needsNewUuid_def String_IsNull_iff)

lemma assignUuids_append:
  "assignUuids p rnd n (us @ ws) =
     (case assignUuids p rnd n us of
        Inl err \<Rightarrow> Inl err
      | Inr (vs, n1) \<Rightarrow>
          (case assignUuids p rnd n1 ws of
             Inl err \<Rightarrow> Inl err
           | Inr (xs, n2) \<Rightarrow> Inr (vs @ xs, n2)))"
  by (induction us arbitrary: n) (auto split: sum.splits)

lemma child_loop_uuids:
  "datasetFolderModel_toFolders_loop p rnd n children acc =
     (case assignUuids p rnd n (map fc_Uuid children) of
        Inl err \<Rightarrow> Inl err
      | Inr (vs, n') \<Rightarrow>
          Inr (acc @ map (\<lambda>(child, v). Folder (ValueString (fc_Name child)) (ValueString (fc_Type child))
                                   (toDescription (fc_Description child)) v (Value []))
                         (zip children vs), n'))"
proof (induction children arbitrary: n acc)
  case Nil
  then show ?case by simp
next
  case (Cons child rest)
  show ?case
  proof (cases "assignUuid p rnd n (fc_Uuid child)")
    case (Inl err)
    then show ?thesis by simp
  next
    case (Inr r)
    obtain v n1 where r: "r = (v, n1)" by (cases r)
    show ?thesis
      using Inr r Cons.IH [of n1] by (auto split: sum.splits)
  qed
qed

lemma assignUuids_length:
  "assignUuids p rnd n us = Inr (vs, n') \<Longrightarrow> length vs = length us"
  by (induction us arbitrary: n vs) (auto split: sum.splits)

lemma child_loop_Inr:
  assumes "datasetFolderModel_toFolders p rnd n fm = Inr (children, n')"
  shows "assignUuids p rnd n (map fc_Uuid (fm_Children fm)) = Inr (map f_Uuid children, n')
         \<and> length children = length (fm_Children fm)"
proof -
  obtain vs where vs: "assignUuids p rnd n (map fc_Uuid (fm_Children fm)) = Inr (vs, n')"
    and ch: "children = map (\<lambda>(child, v). Folder (ValueString (fc_Name child)) (ValueString (fc_Type child))
                                   (toDescription (fc_Description child)) v (Value []))
                         (zip (fm_Children fm) vs)"
    using assms unfolding datasetFolderModel_toFolders_def child_loop_uuids
    by (auto split: sum.splits)
  have len: "length vs = length (fm_Children fm)"
    using assignUuids_length [OF vs] by simp
  have "map f_Uuid children = map snd (zip (fm_Children fm) vs)"
    unfolding ch by (simp add: case_prod_beta comp_def)
  with len have "map f_Uuid children = vs" by simp
  with vs ch len show ?thesis by simp
qed

lemma child_loop_Inl:
  assumes "datasetFolderModel_toFolders p rnd n fm = Inl err"
  shows "assignUuids p rnd n (map fc_Uuid (fm_Children fm)) = Inl err"
  using assms unfolding datasetFolderModel_toFolders_def child_loop_uuids
  by (auto split: sum.splits)

lemma wireUuids_snoc:
  "wireUuids (acc @ [w]) = wireUuids acc @ f_Uuid w # map f_Uuid (wireChildren w)"
  by (simp add: wireUuids_def)

lemma wireChildren_emitted:
  "wireChildren (Folder nm ty de u (if children \<noteq> [] then Value children else Value [])) = children"
  by (simp add: wireChildren_def)

lemma base_loop_Inr:
  "datasetFolderBaseModel_toFolders_loop p rnd n fms acc = Inr (wire, n') \<Longrightarrow>
     \<exists>vs. assignUuids p rnd n (declaredUuids fms) = Inr (vs, n') \<and> wireUuids wire = wireUuids acc @ vs
          \<and> map f_Type wire = map f_Type acc @ map (\<lambda>fm. ValueString (fm_Type fm)) fms
          \<and> map (\<lambda>w. length (wireChildren w)) wire =
              map (\<lambda>w. length (wireChildren w)) acc @ map (\<lambda>fm. length (fm_Children fm)) fms"
proof (induction fms arbitrary: n acc)
  case Nil
  then show ?case by (simp add: declaredUuids_def)
next
  case (Cons fm rest)
  from Cons.prems obtain u n1 children n2 where
    a: "assignUuid p rnd n (fm_Uuid fm) = Inr (u, n1)" and
    c: "datasetFolderModel_toFolders p rnd n1 fm = Inr (children, n2)" and
    l: "datasetFolderBaseModel_toFolders_loop p rnd n2 rest
          (acc @ [Folder (ValueString (fm_Name fm)) (ValueString (fm_Type fm))
                         (toDescription (fm_Description fm)) u
                         (if length children > 0 then Value children else Value [])]) = Inr (wire, n')"
    by (auto split: sum.splits)
  from Cons.IH [OF l] obtain vs where
    vs: "assignUuids p rnd n2 (declaredUuids rest) = Inr (vs, n')" and
    w: "wireUuids wire = wireUuids acc @ u # map f_Uuid children @ vs" and
    t: "map f_Type wire = map f_Type acc @ ValueString (fm_Type fm) # map (\<lambda>fm. ValueString (fm_Type fm)) rest" and
    sh: "map (\<lambda>w. length (wireChildren w)) wire =
           map (\<lambda>w. length (wireChildren w)) acc @ length children # map (\<lambda>fm. length (fm_Children fm)) rest"
    by (auto simp: wireUuids_snoc wireChildren_emitted)
  have d: "declaredUuids (fm # rest) = (fm_Uuid fm # map fc_Uuid (fm_Children fm)) @ declaredUuids rest"
    by (simp add: declaredUuids_def)
  have "assignUuids p rnd n (declaredUuids (fm # rest)) = Inr (u # map f_Uuid children @ vs, n')"
    unfolding d assignUuids_append using a child_loop_Inr [OF c] vs by simp
  with w t sh child_loop_Inr [OF c] show ?case by simp
qed

lemma base_loop_Inl:
  "datasetFolderBaseModel_toFolders_loop p rnd n fms acc = Inl err \<Longrightarrow>
     assignUuids p rnd n (declaredUuids fms) = Inl err"
proof (induction fms arbitrary: n acc)
  case Nil
  then show ?case by simp
next
  case (Cons fm rest)
  have d: "declaredUuids (fm # rest) = (fm_Uuid fm # map fc_Uuid (fm_Children fm)) @ declaredUuids rest"
    by (simp add: declaredUuids_def)
  show ?case
  proof (cases "assignUuid p rnd n (fm_Uuid fm)")
    case (Inl e)
    with Cons.prems show ?thesis unfolding d assignUuids_append by simp
  next
    case (Inr r)
    obtain u n1 where r: "r = (u, n1)" by (cases r)
    show ?thesis
    proof (cases "datasetFolderModel_toFolders p rnd n1 fm")
      case (Inl e)
      with Cons.prems Inr r child_loop_Inl [OF Inl] show ?thesis
        unfolding d assignUuids_append by simp
    next
      case (Inr r2)
      obtain children n2 where r2: "r2 = (children, n2)" by (cases r2)
      from Cons.prems \<open>assignUuid p rnd n (fm_Uuid fm) = Inr r\<close> r Inr r2
      have "datasetFolderBaseModel_toFolders_loop p rnd n2 rest
          (acc @ [Folder (ValueString (fm_Name fm)) (ValueString (fm_Type fm))
                         (toDescription (fm_Description fm)) u
                         (if length children > 0 then Value children else Value [])]) = Inl err"
        by simp
      from Cons.IH [OF this] \<open>assignUuid p rnd n (fm_Uuid fm) = Inr r\<close> r
           child_loop_Inr [of p rnd n1 fm children n2] Inr r2
      show ?thesis unfolding d assignUuids_append by simp
    qed
  qed
qed

lemma assignUuids_Inl:
  "assignUuids p rnd n us = Inl err \<Longrightarrow>
     \<exists>u\<in>set us. \<not> needsNewUuid u \<and> p (ValueString u) = Inl err"
  by (induction us arbitrary: n) (auto simp: assignUuid_cases split: sum.splits if_splits)

lemma assignUuids_Inr:
  "assignUuids p rnd n us = Inr (vs, n') \<Longrightarrow>
     length vs = length us \<and> n' = n + length (filter needsNewUuid us) \<and>
     (\<forall>i<length us.
        if needsNewUuid (us ! i)
        then vs ! i = rnd (n + length (filter needsNewUuid (take i us)))
        else p (ValueString (us ! i)) = Inr (vs ! i))"
proof (induction us arbitrary: n vs)
  case Nil
  then show ?case by simp
next
  case (Cons u us)
  from Cons.prems obtain v n1 ws where
    a: "assignUuid p rnd n u = Inr (v, n1)" and
    r: "assignUuids p rnd n1 us = Inr (ws, n')" and
    vs: "vs = v # ws"
    by (auto split: sum.splits)
  note ih = Cons.IH [OF r]
  have n1: "n1 = n + (if needsNewUuid u then 1 else 0)"
    using a by (auto simp: assignUuid_cases split: if_splits sum.splits)
  have hd: "if needsNewUuid u then v = rnd n else p (ValueString u) = Inr v"
    using a by (auto simp: assignUuid_cases split: if_splits sum.splits)
  have "\<forall>i<length (u # us).
        if needsNewUuid ((u # us) ! i)
        then vs ! i = rnd (n + length (filter needsNewUuid (take i (u # us))))
        else p (ValueString ((u # us) ! i)) = Inr (vs ! i)"
  proof (intro allI impI)
    fix i assume i: "i < length (u # us)"
    show "if needsNewUuid ((u # us) ! i)
        then vs ! i = rnd (n + length (filter needsNewUuid (take i (u # us))))
        else p (ValueString ((u # us) ! i)) = Inr (vs ! i)"
    proof (cases i)
      case 0
      with hd vs show ?thesis by simp
    next
      case (Suc j)
      with i have j: "j < length us" by simp
      from ih j have "if needsNewUuid (us ! j)
        then ws ! j = rnd (n1 + length (filter needsNewUuid (take j us)))
        else p (ValueString (us ! j)) = Inr (ws ! j)" by blast
      with Suc vs n1 show ?thesis by simp
    qed
  qed
  with ih vs n1 show ?case by simp
qed

text \<open>
  C4. In the flatten of a declared folder list, every node (folder or child) whose declared
  uuid is null, the empty string or the all-zero UUID receives a new draw of \<^verbatim>\<open>uuid.New()\<close>,
  one draw per such node and no draw for any other node; every other node carries the
  UUID that \<^verbatim>\<open>uuid.Parse\<close> returns for its declared string; the wire list has the shape of
  the declared one; and the flatten returns an error exactly when some declared uuid that
  is not replaced fails to parse, the error being the parser's.
\<close>

theorem toFolders_uuid_assignment:
  "(let declared = declaredUuids (fb_Folders model) in
    case datasetFolderBaseModel_toFolders uuid_Parse rnd n model of
      Inl err \<Rightarrow>
        (\<exists>u\<in>set declared. \<not> needsNewUuid u \<and> uuid_Parse (ValueString u) = Inl err)
    | Inr (wire, n') \<Rightarrow>
        map (\<lambda>w. length (wireChildren w)) wire = map (\<lambda>fm. length (fm_Children fm)) (fb_Folders model) \<and>
        length (wireUuids wire) = length declared \<and>
        n' = n + length (filter needsNewUuid declared) \<and>
        (\<forall>i<length declared.
           if needsNewUuid (declared ! i)
           then wireUuids wire ! i = rnd (n + length (filter needsNewUuid (take i declared)))
           else uuid_Parse (ValueString (declared ! i)) = Inr (wireUuids wire ! i)))
   \<and> ((\<exists>u\<in>set (declaredUuids (fb_Folders model)).
          \<not> needsNewUuid u \<and> (\<exists>err. uuid_Parse (ValueString u) = Inl err))
        \<longrightarrow> (\<exists>err. datasetFolderBaseModel_toFolders uuid_Parse rnd n model = Inl err))"
proof -
  let ?r = "datasetFolderBaseModel_toFolders uuid_Parse rnd n model"
  let ?d = "declaredUuids (fb_Folders model)"
  have inl: "\<exists>u\<in>set ?d. \<not> needsNewUuid u \<and> uuid_Parse (ValueString u) = Inl err" if "?r = Inl err" for err
    using base_loop_Inl [of uuid_Parse rnd n "fb_Folders model" "[]" err] that assignUuids_Inl
    unfolding datasetFolderBaseModel_toFolders_def by blast
  have inr: "map (\<lambda>w. length (wireChildren w)) wire = map (\<lambda>fm. length (fm_Children fm)) (fb_Folders model) \<and>
        length (wireUuids wire) = length ?d \<and>
        n' = n + length (filter needsNewUuid ?d) \<and>
        (\<forall>i<length ?d.
           if needsNewUuid (?d ! i)
           then wireUuids wire ! i = rnd (n + length (filter needsNewUuid (take i ?d)))
           else uuid_Parse (ValueString (?d ! i)) = Inr (wireUuids wire ! i))"
    if "?r = Inr (wire, n')" for wire n'
  proof -
    from that obtain vs where
      vs: "assignUuids uuid_Parse rnd n ?d = Inr (vs, n')" and
      w: "wireUuids wire = vs" and
      sh: "map (\<lambda>w. length (wireChildren w)) wire = map (\<lambda>fm. length (fm_Children fm)) (fb_Folders model)"
      using base_loop_Inr [of uuid_Parse rnd n "fb_Folders model" "[]" wire n']
      unfolding datasetFolderBaseModel_toFolders_def by (auto simp: wireUuids_def)
    from assignUuids_Inr [OF vs] w sh show ?thesis by simp
  qed
  have bad: "\<exists>err. ?r = Inl err"
    if "\<exists>u\<in>set ?d. \<not> needsNewUuid u \<and> (\<exists>err. uuid_Parse (ValueString u) = Inl err)"
  proof (cases ?r)
    case (Inl err)
    then show ?thesis by blast
  next
    case (Inr p)
    obtain wire n' where p: "p = (wire, n')" by (cases p)
    from that obtain u err where u: "u \<in> set ?d" "\<not> needsNewUuid u" "uuid_Parse (ValueString u) = Inl err"
      by blast
    then obtain i where i: "i < length ?d" "?d ! i = u"
      by (auto simp: in_set_conv_nth)
    from inr [of wire n'] Inr p i u have False by auto
    then show ?thesis ..
  qed
  show ?thesis
    using inl inr bad by (auto simp: Let_def split: sum.splits)
qed

text \<open>
  C2 (as amended). The flatten does not look at the declared type of a root entry. The
  only error it returns is the parser's error for a declared uuid; whenever every declared
  uuid is to be replaced or parses, it returns a wire list, and each root entry of that list
  carries the declared type string as it is.
\<close>

theorem toFolders_keeps_declared_type:
  "(case datasetFolderBaseModel_toFolders uuid_Parse rnd n model of
      Inl err \<Rightarrow>
        (\<exists>u\<in>set (declaredUuids (fb_Folders model)).
           \<not> needsNewUuid u \<and> uuid_Parse (ValueString u) = Inl err)
    | Inr (wire, n') \<Rightarrow>
        map f_Type wire = map (\<lambda>fm. ValueString (fm_Type fm)) (fb_Folders model))
   \<and> ((\<forall>u\<in>set (declaredUuids (fb_Folders model)).
          needsNewUuid u \<or> (\<exists>v. uuid_Parse (ValueString u) = Inr v))
        \<longrightarrow> (\<exists>wire n'. datasetFolderBaseModel_toFolders uuid_Parse rnd n model = Inr (wire, n')))"
proof -
  let ?r = "datasetFolderBaseModel_toFolders uuid_Parse rnd n model"
  let ?d = "declaredUuids (fb_Folders model)"
  have inl: "\<exists>u\<in>set ?d. \<not> needsNewUuid u \<and> uuid_Parse (ValueString u) = Inl err" if "?r = Inl err" for err
    using base_loop_Inl [of uuid_Parse rnd n "fb_Folders model" "[]" err] that assignUuids_Inl
    unfolding datasetFolderBaseModel_toFolders_def by blast
  have inr: "map f_Type wire = map (\<lambda>fm. ValueString (fm_Type fm)) (fb_Folders model)"
    if "?r = Inr (wire, n')" for wire n'
    using base_loop_Inr [of uuid_Parse rnd n "fb_Folders model" "[]" wire n'] that
    unfolding datasetFolderBaseModel_toFolders_def by auto
  have ok: "\<exists>wire n'. ?r = Inr (wire, n')"
    if h: "\<forall>u\<in>set ?d. needsNewUuid u \<or> (\<exists>v. uuid_Parse (ValueString u) = Inr v)"
  proof (cases ?r)
    case (Inl err)
    from inl [OF Inl] h show ?thesis by auto
  next
    case (Inr p)
    then show ?thesis by (cases p) auto
  qed
  show ?thesis
    using inl inr ok by (auto split: sum.splits)
qed

text \<open>
  The claim as first stated fails: a root entry of type \<open>column\<close> is flattened to a wire
  node of type \<open>column\<close>, with no error.
\<close>

theorem toFolders_root_type_counterexample:
  "datasetFolderBaseModel_toFolders parseCanonical exampleRnd 0
       (exampleFolders [exampleFolder ''column'' StringNull []])
    = Inr ([Folder ''Sales'' ''column'' (Value ''Sales figures'') (exampleRnd 0) (Value [])], 1)"
  by (simp add: datasetFolderBaseModel_toFolders_def datasetFolderModel_toFolders_def assignUuid_def
        toDescription_def exampleFolders_def exampleFolder_def)

theorem toFolders_uuid_assignment_witness:
  "declaredUuids (fb_Folders exampleMixedFolders) =
     [StringNull, StringValue ''01234567-89ab-cdef-0123-456789abcdef'',
      StringValue ''00000000-0000-0000-0000-000000000000'']
   \<and> (\<exists>wire. datasetFolderBaseModel_toFolders parseCanonical exampleRnd 0 exampleMixedFolders = Inr (wire, 2)
         \<and> wireUuids wire = [exampleRnd 0, 0x0123456789abcdef0123456789abcdef, exampleRnd 1])
   \<and> datasetFolderBaseModel_toFolders parseCanonical exampleRnd 0 exampleMalformedFolders
         = Inl (UuidParseError ''not-a-uuid'')"
proof -
  have d: "declaredUuids (fb_Folders exampleMixedFolders) =
     [StringNull, StringValue ''01234567-89ab-cdef-0123-456789abcdef'',
      StringValue ''00000000-0000-0000-0000-000000000000'']"
    by (simp add: declaredUuids_def exampleMixedFolders_def exampleFolders_def exampleFolder_def
                  exampleFolderChild_def)
  have p: "parseCanonical ''01234567-89ab-cdef-0123-456789abcdef'' = Inr 0x0123456789abcdef0123456789abcdef"
    by (simp add: parseCanonical_def hexVal_def)
  have nn: "needsNewUuid StringNull" "\<not> needsNewUuid (StringValue ''01234567-89ab-cdef-0123-456789abcdef'')"
    "needsNewUuid (StringValue ''00000000-0000-0000-0000-000000000000'')"
    by (simp_all add: needsNewUuid_def)
  obtain r where r: "datasetFolderBaseModel_toFolders parseCanonical exampleRnd 0 exampleMixedFolders = r"
    by blast
  have good: "\<exists>wire. r = Inr (wire, 2) \<and> wireUuids wire = [exampleRnd 0, 0x0123456789abcdef0123456789abcdef, exampleRnd 1]"
  proof (cases r)
    case (Inl err)
    with toFolders_uuid_assignment [where model = exampleMixedFolders and uuid_Parse = parseCanonical and rnd = exampleRnd and n = 0] r d p nn
    show ?thesis by (auto simp: Let_def)
  next
    case (Inr q)
    obtain wire n' where q: "q = (wire, n')" by (cases q)
    from toFolders_uuid_assignment [where model = exampleMixedFolders and uuid_Parse = parseCanonical and rnd = exampleRnd and n = 0] r Inr q d
    have len: "length (wireUuids wire) = 3" and n': "n' = 0 + length (filter needsNewUuid
        [StringNull, StringValue ''01234567-89ab-cdef-0123-456789abcdef'',
         StringValue ''00000000-0000-0000-0000-000000000000''])"
      and all: "\<forall>i<3. if needsNewUuid ([StringNull, StringValue ''01234567-89ab-cdef-0123-456789abcdef'',
         StringValue ''00000000-0000-0000-0000-000000000000''] ! i)
           then wireUuids wire ! i = exampleRnd (0 + length (filter needsNewUuid (take i [StringNull, StringValue ''01234567-89ab-cdef-0123-456789abcdef'',
         StringValue ''00000000-0000-0000-0000-000000000000''])))
           else parseCanonical (ValueString ([StringNull, StringValue ''01234567-89ab-cdef-0123-456789abcdef'',
         StringValue ''00000000-0000-0000-0000-000000000000''] ! i)) = Inr (wireUuids wire ! i)"
      by (simp_all add: Let_def)
    from all have "wireUuids wire ! 0 = exampleRnd 0"
      using nn by simp
    moreover from all have "wireUuids wire ! 1 = 0x0123456789abcdef0123456789abcdef"
      using nn p by (auto dest: spec [of _ 1])
    moreover from all have "wireUuids wire ! 2 = exampleRnd 1"
      using nn by (auto dest!: spec [of _ 2] simp: numeral_2_eq_2)
    ultimately have "wireUuids wire = [exampleRnd 0, 0x0123456789abcdef0123456789abcdef, exampleRnd 1]"
      using len by (auto simp: list_eq_iff_nth_eq less_Suc_eq numeral_3_eq_3 numeral_2_eq_2)
    moreover have "n' = 2" using n' nn by simp
    ultimately show ?thesis using Inr q by simp
  qed
  have bad: "datasetFolderBaseModel_toFolders parseCanonical exampleRnd 0 exampleMalformedFolders
         = Inl (UuidParseError ''not-a-uuid'')"
  proof -
    have d2: "declaredUuids (fb_Folders exampleMalformedFolders) = [StringNull, StringValue ''not-a-uuid'']"
      by (simp add: declaredUuids_def exampleMalformedFolders_def exampleFolders_def exampleFolder_def
                  exampleFolderChild_def)
    have p2: "parseCanonical ''not-a-uuid'' = Inl (UuidParseError ''not-a-uuid'')"
      by (simp add: parseCanonical_def)
    have n2: "\<not> needsNewUuid (StringValue ''not-a-uuid'')"
      by (simp add: needsNewUuid_def)
    from toFolders_uuid_assignment [where model = exampleMalformedFolders and uuid_Parse = parseCanonical and rnd = exampleRnd and n = 0] d2 p2 n2 nn(1)
    show ?thesis by (auto simp: Let_def split: sum.splits)
  qed
  from d good bad r show ?thesis by simp
qed

theorem toFolders_keeps_declared_type_witness:
  "\<exists>wire n'. datasetFolderBaseModel_toFolders parseCanonical exampleRnd 0
                    (exampleFolders [exampleFolder ''column'' StringNull []]) = Inr (wire, n')
               \<and> map f_Type wire = [''column'']"
proof -
  have h: "\<forall>u\<in>set (declaredUuids (fb_Folders (exampleFolders [exampleFolder ''column'' StringNull []]))).
      needsNewUuid u \<or> (\<exists>v. parseCanonical (ValueString u) = Inr v)"
    by (simp add: declaredUuids_def exampleFolders_def exampleFolder_def needsNewUuid_def)
  from toFolders_keeps_declared_type [where uuid_Parse = parseCanonical and rnd = exampleRnd
         and n = 0 and model = "exampleFolders [exampleFolder ''column'' StringNull []]"] h
  obtain wire n' where
    r: "datasetFolderBaseModel_toFolders parseCanonical exampleRnd 0
          (exampleFolders [exampleFolder ''column'' StringNull []]) = Inr (wire, n')"
    by blast
  with toFolders_keeps_declared_type [where uuid_Parse = parseCanonical and rnd = exampleRnd
         and n = 0 and model = "exampleFolders [exampleFolder ''column'' StringNull []]"]
  have "map f_Type wire = [''column'']"
    by (simp add: exampleFolders_def exampleFolder_def)
  with r have "\<exists>wire n'. datasetFolderBaseModel_toFolders parseCanonical exampleRnd 0
                    (exampleFolders [exampleFolder ''column'' StringNull []]) = Inr (wire, n')
               \<and> map f_Type wire = [''column'']"
    by (intro exI [of _ wire] exI [of _ n']) simp
  then show ?thesis .
qed

section \<open>Dataset folders: wire to configuration\<close>

lemma uuid_String_small:
  "uuid_String 1 = ''00000000-0000-0000-0000-000000000001''"
  "uuid_String 2 = ''00000000-0000-0000-0000-000000000002''"
  by (simp_all add: uuid_String_def hexBytes_def hexByte_def uuid_byte_def hexDigit_def drop_bit_eq_div unat_div)

text \<open>
  C3. The mapping of a wire tree back to configuration shape is claimed to fail when a
  folder is nested inside a folder. It does not: the check behind the message
  \<open>Nested folders are not supported\<close> looks at the root entry again, never at a child. For
  the root folder \<open>Sales\<close> holding the folder \<open>Inner\<close>, which holds the column \<open>amount\<close>,
  \<^verbatim>\<open>updateState\<close> succeeds, keeps \<open>Inner\<close> as a child of type \<open>folder\<close>, and drops
  \<open>amount\<close>: two configuration nodes for three wire nodes.
\<close>

theorem updateState_nested_folder_accepted:
  "datasetFolderBaseModel_updateState Inr Inr (exampleFolders [])
     (exampleDataset [] [] (Value exampleNestedWire))
   = Inr (exampleFolders
       [\<lparr>fm_Name = StringValue ''Sales'', fm_Description = StringNull, fm_Type = StringValue ''folder'',
         fm_Children = [\<lparr>fc_Name = StringValue ''Inner'', fc_Description = StringNull,
                          fc_Type = StringValue ''folder'',
                          fc_Uuid = StringValue ''00000000-0000-0000-0000-000000000002''\<rparr>],
         fm_Uuid = StringValue ''00000000-0000-0000-0000-000000000001''\<rparr>])"
  by (simp add: datasetFolderBaseModel_updateState_def mapToFolders_def exampleDataset_def
        exampleNestedWire_def datasetFolderModel_updateState_def readDescription_def
        FolderTypeFolder_def exampleFolders_def uuid_String_small)

section \<open>Dataset folders: pinning the children\<close>







section \<open>Dataset metrics: certification\<close>

lemma parseCertification_of_packed:
  assumes "json_Unmarshal s = Inr (certificationOf model)" and "s \<noteq> []"
    and "dm_CertifiedBy m0 = StringNull" and "dm_CertificationDetails m0 = StringNull"
  shows "datasetMetric_parseCertification json_Unmarshal m0 (d\<lparr>met_Extra := Value s\<rparr>)
           = Inr (m0\<lparr>dm_CertifiedBy := parsedBack (dm_CertifiedBy model),
                     dm_CertificationDetails := parsedBack (dm_CertificationDetails model)\<rparr>)"
proof -
  have n: "m0\<lparr>dm_CertifiedBy := StringNull\<rparr> = m0" "m0\<lparr>dm_CertificationDetails := StringNull\<rparr> = m0"
    using assms(3,4) by simp_all
  have n2: "m0\<lparr>dm_CertifiedBy := StringNull, dm_CertificationDetails := z\<rparr> = m0\<lparr>dm_CertificationDetails := z\<rparr>"
    "m0\<lparr>dm_CertifiedBy := y, dm_CertificationDetails := StringNull\<rparr> = m0\<lparr>dm_CertifiedBy := y\<rparr>" for y z
    using assms(3,4) by simp_all
  show ?thesis
    using assms(1,2) n n2
    by (simp add: datasetMetric_parseCertification_def certificationOf_def parsedBack_def Let_def)
qed

lemma parsedBack_same:
  "u = StringNull \<or> (\<exists>x. x \<noteq> [] \<and> u = StringValue x) \<Longrightarrow> parsedBack u = u"
  by (auto simp: parsedBack_def)

text \<open>
  C6 (as amended). Let the JSON encoder and decoder agree on the certification object of
  the metric. If the metric's certification fields are not both null, \<^verbatim>\<open>toExtra\<close> returns
  the JSON text, and parsing that text into a fresh metric gives back each field that is
  null or a non-empty string as it was declared, while a field whose text is empty (declared
  empty, or not yet known) comes back null. If both fields are null, \<^verbatim>\<open>toExtra\<close> returns the
  empty string; and parsing a null or an empty extra leaves both fields of the fresh metric
  null. (An extra that was not sent at all is left out: there \<^verbatim>\<open>MustGet\<close> panics.)
\<close>

theorem certification_roundtrip:
  assumes "json_Marshal (certificationOf model) = Inr s"
    and "json_Unmarshal s = Inr (certificationOf model)"
    and "s \<noteq> []"
    and "dm_CertifiedBy m0 = StringNull" and "dm_CertificationDetails m0 = StringNull"
  shows
    "(\<not> (dm_CertifiedBy model = StringNull \<and> dm_CertificationDetails model = StringNull) \<longrightarrow>
        datasetMetric_toExtra json_Marshal model = Inr s \<and>
        datasetMetric_parseCertification json_Unmarshal m0 (d\<lparr>met_Extra := Value s\<rparr>)
          = Inr (m0\<lparr>dm_CertifiedBy := parsedBack (dm_CertifiedBy model),
                    dm_CertificationDetails := parsedBack (dm_CertificationDetails model)\<rparr>) \<and>
        ((dm_CertifiedBy model = StringNull \<or> (\<exists>x. x \<noteq> [] \<and> dm_CertifiedBy model = StringValue x)) \<and>
         (dm_CertificationDetails model = StringNull \<or>
            (\<exists>x. x \<noteq> [] \<and> dm_CertificationDetails model = StringValue x)) \<longrightarrow>
           datasetMetric_parseCertification json_Unmarshal m0 (d\<lparr>met_Extra := Value s\<rparr>)
             = Inr (m0\<lparr>dm_CertifiedBy := dm_CertifiedBy model,
                       dm_CertificationDetails := dm_CertificationDetails model\<rparr>)))
     \<and> (dm_CertifiedBy model = StringNull \<and> dm_CertificationDetails model = StringNull \<longrightarrow>
          datasetMetric_toExtra json_Marshal model = Inr [])
     \<and> datasetMetric_parseCertification json_Unmarshal m0 (d\<lparr>met_Extra := Null\<rparr>) = Inr m0
     \<and> datasetMetric_parseCertification json_Unmarshal m0 (d\<lparr>met_Extra := Value []\<rparr>) = Inr m0"
proof -
  note p = parseCertification_of_packed [where json_Unmarshal = json_Unmarshal and s = s
      and model = model and ?m0.0 = m0 and d = d, OF assms(2-5)]
  have pack: "datasetMetric_toExtra json_Marshal model = Inr s"
    if "\<not> (dm_CertifiedBy model = StringNull \<and> dm_CertificationDetails model = StringNull)"
    using that assms(1)
    by (auto simp: datasetMetric_toExtra_def certificationOf_def String_IsNull_iff Let_def)
  have same: "datasetMetric_parseCertification json_Unmarshal m0 (d\<lparr>met_Extra := Value s\<rparr>)
             = Inr (m0\<lparr>dm_CertifiedBy := dm_CertifiedBy model,
                       dm_CertificationDetails := dm_CertificationDetails model\<rparr>)"
    if "dm_CertifiedBy model = StringNull \<or> (\<exists>x. x \<noteq> [] \<and> dm_CertifiedBy model = StringValue x)"
      and "dm_CertificationDetails model = StringNull \<or>
            (\<exists>x. x \<noteq> [] \<and> dm_CertificationDetails model = StringValue x)"
    using p parsedBack_same [OF that(1)] parsedBack_same [OF that(2)] by simp
  have empty: "datasetMetric_toExtra json_Marshal model = Inr []"
    if "dm_CertifiedBy model = StringNull \<and> dm_CertificationDetails model = StringNull"
    using that by (simp add: datasetMetric_toExtra_def)
  have absent: "datasetMetric_parseCertification json_Unmarshal m0 (d\<lparr>met_Extra := Null\<rparr>) = Inr m0"
    "datasetMetric_parseCertification json_Unmarshal m0 (d\<lparr>met_Extra := Value []\<rparr>) = Inr m0"
    by (simp_all add: datasetMetric_parseCertification_def)
  from p pack same empty absent show ?thesis by blast
qed

theorem certification_roundtrip_witness:
  \<open>exampleJsonMarshal (certificationOf (exampleMetric (StringValue ''alice'') StringNull))
      = Inr ''{"certification":{"certified_by":"alice","details":""}}''
   \<and> exampleJsonUnmarshal ''{"certification":{"certified_by":"alice","details":""}}''
      = Inr (certificationOf (exampleMetric (StringValue ''alice'') StringNull))
   \<and> datasetMetric_toExtra exampleJsonMarshal (exampleMetric (StringValue ''alice'') StringNull)
      = Inr ''{"certification":{"certified_by":"alice","details":""}}''
   \<and> datasetMetric_parseCertification exampleJsonUnmarshal (exampleMetric StringNull StringNull)
        ((exampleServerMetric ''total'' 3 Unspecified)
           \<lparr>met_Extra := Value ''{"certification":{"certified_by":"alice","details":""}}''\<rparr>)
      = Inr (exampleMetric (StringValue ''alice'') StringNull)
   \<and> datasetMetric_parseCertification exampleJsonUnmarshal (exampleMetric StringNull StringNull)
        (exampleServerMetric ''total'' 3 Unspecified) = Inr (exampleMetric StringNull StringNull)\<close>
proof -
  have m: \<open>exampleJsonMarshal (certificationOf (exampleMetric (StringValue ''alice'') StringNull))
      = Inr ''{"certification":{"certified_by":"alice","details":""}}''\<close>
    by (simp add: exampleJsonMarshal_def certificationOf_def exampleMetric_def)
  have u: \<open>exampleJsonUnmarshal ''{"certification":{"certified_by":"alice","details":""}}''
      = Inr (certificationOf (exampleMetric (StringValue ''alice'') StringNull))\<close>
    by (simp add: exampleJsonUnmarshal_def certificationOf_def exampleMetric_def)
  have ne: \<open>''{"certification":{"certified_by":"alice","details":""}}'' \<noteq> []\<close>
    by simp
  have z: "dm_CertifiedBy (exampleMetric StringNull StringNull) = StringNull"
    "dm_CertificationDetails (exampleMetric StringNull StringNull) = StringNull"
    by (simp_all add: exampleMetric_def)
  have e: "(exampleServerMetric ''total'' 3 Unspecified)\<lparr>met_Extra := Null\<rparr>
             = exampleServerMetric ''total'' 3 Unspecified"
    by (simp add: exampleServerMetric_def)
  have r: "(exampleMetric StringNull StringNull)
             \<lparr>dm_CertifiedBy := dm_CertifiedBy (exampleMetric (StringValue ''alice'') StringNull),
              dm_CertificationDetails := dm_CertificationDetails (exampleMetric (StringValue ''alice'') StringNull)\<rparr>
           = exampleMetric (StringValue ''alice'') StringNull"
    by (simp add: exampleMetric_def)
  note t = certification_roundtrip [where json_Marshal = exampleJsonMarshal
      and json_Unmarshal = exampleJsonUnmarshal
      and model = "exampleMetric (StringValue ''alice'') StringNull"
      and s = \<open>''{"certification":{"certified_by":"alice","details":""}}''\<close>
      and ?m0.0 = "exampleMetric StringNull StringNull"
      and d = "exampleServerMetric ''total'' 3 Unspecified", OF m u ne z]
  have nb: "\<not> (dm_CertifiedBy (exampleMetric (StringValue ''alice'') StringNull) = StringNull \<and>
               dm_CertificationDetails (exampleMetric (StringValue ''alice'') StringNull) = StringNull)"
    by (simp add: exampleMetric_def)
  have ok: "(dm_CertifiedBy (exampleMetric (StringValue ''alice'') StringNull) = StringNull \<or>
              (\<exists>x. x \<noteq> [] \<and> dm_CertifiedBy (exampleMetric (StringValue ''alice'') StringNull) = StringValue x)) \<and>
            (dm_CertificationDetails (exampleMetric (StringValue ''alice'') StringNull) = StringNull \<or>
              (\<exists>x. x \<noteq> [] \<and> dm_CertificationDetails (exampleMetric (StringValue ''alice'') StringNull) = StringValue x))"
    by (simp add: exampleMetric_def)
  note t1 = t [THEN conjunct1, THEN mp, OF nb]
  note a = t1 [THEN conjunct1]
  note b0 = t1 [THEN conjunct2, THEN conjunct2, THEN mp, OF ok]
  have b: \<open>datasetMetric_parseCertification exampleJsonUnmarshal (exampleMetric StringNull StringNull)
        ((exampleServerMetric ''total'' 3 Unspecified)
           \<lparr>met_Extra := Value ''{"certification":{"certified_by":"alice","details":""}}''\<rparr>)
      = Inr (exampleMetric (StringValue ''alice'') StringNull)\<close>
    using b0 unfolding r .
  have c: "datasetMetric_parseCertification exampleJsonUnmarshal (exampleMetric StringNull StringNull)
        (exampleServerMetric ''total'' 3 Unspecified) = Inr (exampleMetric StringNull StringNull)"
    using t [THEN conjunct2, THEN conjunct2, THEN conjunct1] unfolding e .
  from m u a b c show ?thesis by simp
qed

text \<open>
  The claim as first stated fails for a metric with one certification field declared as the
  empty string and the other non-empty: \<open>certified_by = ""\<close>, \<open>certification_details =
  "audited"\<close> is packed and parsed back to a null \<open>certified_by\<close>.
\<close>

theorem certification_roundtrip_counterexample:
  \<open>datasetMetric_toExtra exampleJsonMarshal (exampleMetric (StringValue []) (StringValue ''audited''))
      = Inr ''{"certification":{"certified_by":"","details":"audited"}}''
   \<and> datasetMetric_parseCertification exampleJsonUnmarshal (exampleMetric StringNull StringNull)
        ((exampleServerMetric ''total'' 3 Unspecified)
           \<lparr>met_Extra := Value ''{"certification":{"certified_by":"","details":"audited"}}''\<rparr>)
      = Inr (exampleMetric StringNull (StringValue ''audited''))
   \<and> dm_CertifiedBy (exampleMetric StringNull (StringValue ''audited''))
      \<noteq> dm_CertifiedBy (exampleMetric (StringValue []) (StringValue ''audited''))\<close>
  by (simp add: datasetMetric_toExtra_def datasetMetric_parseCertification_def exampleJsonMarshal_def
        exampleJsonUnmarshal_def exampleMetric_def exampleServerMetric_def)

section \<open>Name resolution\<close>

lemma fold_upd_map_of:
  "fold (\<lambda>x m. m(k x \<mapsto> v x)) xs m0 = m0 ++ map_of (rev (map (\<lambda>x. (k x, v x)) xs))"
proof (induction xs arbitrary: m0)
  case Nil
  then show ?case by simp
next
  case (Cons x xs)
  have "fold (\<lambda>x m. m(k x \<mapsto> v x)) (x # xs) m0 = fold (\<lambda>x m. m(k x \<mapsto> v x)) xs (m0(k x \<mapsto> v x))"
    by simp
  also have "\<dots> = m0(k x \<mapsto> v x) ++ map_of (rev (map (\<lambda>x. (k x, v x)) xs))"
    by (rule Cons.IH)
  also have "\<dots> = m0 ++ map_of (rev (map (\<lambda>x. (k x, v x)) (x # xs)))"
    by (rule ext) (simp add: map_add_def split: option.splits)
  finally show ?case .
qed

lemma fold_upd_table:
  "fold (\<lambda>x m. m(k x \<mapsto> v x)) xs Map.empty = map_of (rev (map (\<lambda>x. (k x, v x)) xs))"
  by (simp add: fold_upd_map_of)

lemma map_of_rev_None: "map_of (rev table) n = None \<longleftrightarrow> n \<notin> fst ` set table"
  by (simp add: map_of_eq_None_iff)

lemma resolveIDsFromNames_loop_result:
  "resolveIDsFromNames_loop (map_of (rev table)) (map AttrString ss) ids notFound =
     Inr (ids @ resolvedIds table (map ValueString ss), notFound @ unresolved table (map ValueString ss))"
proof (induction ss arbitrary: ids notFound)
  case Nil
  then show ?case by (simp add: resolvedIds_def unresolved_def)
next
  case (Cons s ss)
  show ?case
  proof (cases "map_of (rev table) (ValueString s)")
    case None
    then have "ValueString s \<notin> fst ` set table" by (simp add: map_of_rev_None)
    with None Cons show ?thesis by (simp add: resolvedIds_def unresolved_def)
  next
    case (Some i)
    then have "ValueString s \<in> fst ` set table"
      using map_of_rev_None [of table "ValueString s"] by auto
    with Some Cons show ?thesis by (simp add: resolvedIds_def unresolved_def)
  qed
qed

lemma resolveRoleIds_loop_result:
  "StringNull \<notin> set ss \<Longrightarrow>
   resolveRoleIds_loop (map_of (rev table)) (map AttrString ss) ids notFound =
     Inr (ids @ resolvedIds table (map ValueString ss), notFound @ unresolved table (map ValueString ss))"
proof (induction ss arbitrary: ids notFound)
  case Nil
  then show ?case by (simp add: resolvedIds_def unresolved_def)
next
  case (Cons s ss)
  then have nn: "\<not> String_IsNull s" by (cases s) auto
  show ?case
  proof (cases "map_of (rev table) (ValueString s)")
    case None
    then have "ValueString s \<notin> fst ` set table" by (simp add: map_of_rev_None)
    with None Cons nn show ?thesis by (simp add: resolvedIds_def unresolved_def)
  next
    case (Some i)
    then have "ValueString s \<in> fst ` set table"
      using map_of_rev_None [of table "ValueString s"] by auto
    with Some Cons nn show ?thesis by (simp add: resolvedIds_def unresolved_def)
  qed
qed

lemma readPermissionAttr_permissionObject:
  assumes "fst pv \<noteq> StringNull" and "snd pv \<noteq> StringNull"
  shows "readPermissionAttr (TfKnown [(''permission_name'', AttrString (fst pv)),
                                      (''view_menu_name'', AttrString (snd pv))]) ''permission_name''
           = Inr (ValueString (fst pv))"
    and "readPermissionAttr (TfKnown [(''permission_name'', AttrString (fst pv)),
                                      (''view_menu_name'', AttrString (snd pv))]) ''view_menu_name''
           = Inr (ValueString (snd pv))"
  using assms by (simp_all add: readPermissionAttr_def String_IsNull_iff)

lemma resolvePermissions_loop_step:
  assumes "fst pv \<noteq> StringNull" and "snd pv \<noteq> StringNull"
  shows "resolvePermissions_loop m (permissionObject pv # rest) permissions notFound =
     (case m (permissionKey pv) of
        None \<Rightarrow> resolvePermissions_loop m rest permissions (notFound @ [permissionKey pv])
      | Some i \<Rightarrow>
          resolvePermissions_loop m rest
            (permissions @ [\<lparr>rp_Id = i, rp_PermissionName = ValueString (fst pv),
                             rp_ViewMenuName = ValueString (snd pv)\<rparr>]) notFound)"
  using readPermissionAttr_permissionObject [OF assms]
  by (simp add: permissionObject_def permissionKey_def Let_def split: option.splits)

lemma resolvePermissions_loop_result:
  "\<forall>pv\<in>set pvs. fst pv \<noteq> StringNull \<and> snd pv \<noteq> StringNull \<Longrightarrow>
   resolvePermissions_loop (map_of (rev table)) (map permissionObject pvs) permissions notFound =
     Inr (permissions @ resolvedPermissions table pvs,
          notFound @ unresolved table (map permissionKey pvs))"
proof (induction pvs arbitrary: permissions notFound)
  case Nil
  then show ?case by (simp add: resolvedPermissions_def unresolved_def)
next
  case (Cons pv pvs)
  then have nn: "fst pv \<noteq> StringNull" "snd pv \<noteq> StringNull" by simp_all
  note step = resolvePermissions_loop_step [OF nn]
  from Cons have ih: "resolvePermissions_loop (map_of (rev table)) (map permissionObject pvs) ps nf =
     Inr (ps @ resolvedPermissions table pvs, nf @ unresolved table (map permissionKey pvs))" for ps nf
    by simp
  show ?case
  proof (cases "map_of (rev table) (permissionKey pv)")
    case None
    then have "permissionKey pv \<notin> fst ` set table" by (simp add: map_of_rev_None)
    with None show ?thesis
      by (simp add: step ih resolvedPermissions_def unresolved_def del: resolvePermissions_loop.simps)
  next
    case (Some i)
    then have "permissionKey pv \<in> fst ` set table"
      using map_of_rev_None [of table "permissionKey pv"] by auto
    with Some show ?thesis
      by (simp add: step ih resolvedPermissions_def unresolved_def del: resolvePermissions_loop.simps)
  qed
qed

lemma resolved_count:
  "length (resolvedIds table names) + length (unresolved table names) = length names"
  by (simp add: resolvedIds_def unresolved_def sum_length_filter_compl)

lemma resolved_entity:
  assumes "n \<in> fst ` set table"
  shows "(n, the (map_of (rev table) n)) \<in> set table"
proof -
  from assms obtain i where "map_of (rev table) n = Some i"
    using map_of_rev_None [of table n] by auto
  then show ?thesis using map_of_SomeD [of "rev table" n i] by simp
qed

text \<open>
  C7. Each resolver (role names and group names of a user, role names of a group binding,
  permission and view-menu pairs of a role) goes through the declared collection once, in
  its order. A declared name whose key is the key of an entity of the source contributes
  the id of such an entity (the last one with that key) to the result, in the declared
  order; every other declared name is appended to the list of names not found, none is
  dropped and the first one does not stop the loop. So the two lists together have one
  entry per declared name. (The elements are the strings and objects that the schema
  gives; on anything else the type assertions panic.)
\<close>

theorem name_resolution:
  assumes "Elements (um_RoleNames um) = map AttrString roleNames"
    and "Elements (um_GroupNames um) = map AttrString groupNames"
    and "Elements (gb_RoleNames gb) = map AttrString boundNames"
    and "StringNull \<notin> set boundNames"
    and "Elements (rpm_Permissions rpm) = map permissionObject pvs"
    and "\<forall>pv\<in>set pvs. fst pv \<noteq> StringNull \<and> snd pv \<noteq> StringNull"
  shows
    "resolveRoleIDsFromNames um sourceRoles =
       Inr (resolvedIds (roleTable sourceRoles) (map ValueString roleNames),
            unresolved (roleTable sourceRoles) (map ValueString roleNames))
     \<and> resolveGroupIDsFromNames um sourceGroups =
       Inr (resolvedIds (groupTable sourceGroups) (map ValueString groupNames),
            unresolved (groupTable sourceGroups) (map ValueString groupNames))
     \<and> resolveRoleIds gb sourceRoles =
       Inr (resolvedIds (roleTable sourceRoles) (map ValueString boundNames),
            unresolved (roleTable sourceRoles) (map ValueString boundNames))
     \<and> resolvePermissions rpm sourcePermissions =
       Inr (resolvedPermissions (permissionTable sourcePermissions) pvs,
            unresolved (permissionTable sourcePermissions) (map permissionKey pvs))
     \<and> length (resolvedPermissions (permissionTable sourcePermissions) pvs) =
         length (resolvedIds (permissionTable sourcePermissions) (map permissionKey pvs))
     \<and> (\<forall>table names.
           length (resolvedIds table names) + length (unresolved table names) = length names \<and>
           (\<forall>n\<in>set names. n \<in> fst ` set table \<longrightarrow> (n, the (map_of (rev table) n)) \<in> set table))"
proof -
  have nullE: "Elements c = []" if "Tf_IsNull c" for c :: tfcollection
    using that by (cases c) simp_all
  have rt: "fold (\<lambda>r m. m(role_Name r \<mapsto> role_Id r)) sourceRoles Map.empty
              = map_of (rev (roleTable sourceRoles))"
    unfolding roleTable_def by (rule fold_upd_table)
  have gt: "fold (\<lambda>g m. m(group_Name g \<mapsto> group_Id g)) sourceGroups Map.empty
              = map_of (rev (groupTable sourceGroups))"
    unfolding groupTable_def by (rule fold_upd_table)
  have pt: "fold (\<lambda>p m. m(perm_Permission_Name p @ ''_'' @ perm_ViewMenu_Name p \<mapsto> perm_Id p))
                 sourcePermissions Map.empty
              = map_of (rev (permissionTable sourcePermissions))"
    unfolding permissionTable_def by (rule fold_upd_table)
  have roles: "resolveRoleIDsFromNames um sourceRoles =
       Inr (resolvedIds (roleTable sourceRoles) (map ValueString roleNames),
            unresolved (roleTable sourceRoles) (map ValueString roleNames))"
  proof (cases "Tf_IsNull (um_RoleNames um)")
    case True
    with nullE assms(1) have "roleNames = []" by simp
    with True show ?thesis
      by (simp add: resolveRoleIDsFromNames_def resolvedIds_def unresolved_def)
  next
    case False
    then show ?thesis
      unfolding resolveRoleIDsFromNames_def Let_def rt assms(1)
      using resolveIDsFromNames_loop_result [of "roleTable sourceRoles" roleNames "[]" "[]"]
      by simp
  qed
  have groups: "resolveGroupIDsFromNames um sourceGroups =
       Inr (resolvedIds (groupTable sourceGroups) (map ValueString groupNames),
            unresolved (groupTable sourceGroups) (map ValueString groupNames))"
  proof (cases "Tf_IsNull (um_GroupNames um)")
    case True
    with nullE assms(2) have "groupNames = []" by simp
    with True show ?thesis
      by (simp add: resolveGroupIDsFromNames_def resolvedIds_def unresolved_def)
  next
    case False
    then show ?thesis
      unfolding resolveGroupIDsFromNames_def Let_def gt assms(2)
      using resolveIDsFromNames_loop_result [of "groupTable sourceGroups" groupNames "[]" "[]"]
      by simp
  qed
  have bound: "resolveRoleIds gb sourceRoles =
       Inr (resolvedIds (roleTable sourceRoles) (map ValueString boundNames),
            unresolved (roleTable sourceRoles) (map ValueString boundNames))"
  proof (cases "Tf_IsNull (gb_RoleNames gb)")
    case True
    with nullE assms(3) have "boundNames = []" by simp
    with True show ?thesis
      by (simp add: resolveRoleIds_def resolvedIds_def unresolved_def)
  next
    case False
    then show ?thesis
      unfolding resolveRoleIds_def Let_def rt assms(3)
      using resolveRoleIds_loop_result [OF assms(4), of "roleTable sourceRoles" "[]" "[]"]
      by simp
  qed
  have perms: "resolvePermissions rpm sourcePermissions =
       Inr (resolvedPermissions (permissionTable sourcePermissions) pvs,
            unresolved (permissionTable sourcePermissions) (map permissionKey pvs))"
  proof (cases "Tf_IsNull (rpm_Permissions rpm)")
    case True
    with nullE assms(5) have "pvs = []" by simp
    with True show ?thesis
      by (simp add: resolvePermissions_def resolvedPermissions_def unresolved_def)
  next
    case False
    then show ?thesis
      unfolding resolvePermissions_def Let_def pt assms(5)
      using resolvePermissions_loop_result [OF assms(6), of "permissionTable sourcePermissions" "[]" "[]"]
      by simp
  qed
  have len: "length (resolvedPermissions (permissionTable sourcePermissions) pvs) =
         length (resolvedIds (permissionTable sourcePermissions) (map permissionKey pvs))"
    by (simp add: resolvedPermissions_def resolvedIds_def filter_map comp_def)
  have facts: "\<forall>table names.
           length (resolvedIds table names) + length (unresolved table names) = length names \<and>
           (\<forall>n\<in>set names. n \<in> fst ` set table \<longrightarrow> (n, the (map_of (rev table) n)) \<in> set table)"
  proof (intro allI conjI ballI impI)
    fix table :: "(string \<times> int) list" and names :: "string list"
    show "length (resolvedIds table names) + length (unresolved table names) = length names"
      by (rule resolved_count)
  next
    fix table :: "(string \<times> int) list" and names :: "string list" and n
    assume "n \<in> fst ` set table"
    then show "(n, the (map_of (rev table) n)) \<in> set table"
      by (rule resolved_entity)
  qed
  show ?thesis
    by (intro conjI) (rule roles groups bound perms len facts)+
qed

theorem name_resolution_witness:
  "resolveRoleIDsFromNames
      (exampleUser (TfKnown (map AttrString exampleNamesABC)) (TfKnown (map AttrString exampleNamesABC)))
      [\<lparr>role_Id = 10, role_Name = ''A''\<rparr>, \<lparr>role_Id = 30, role_Name = ''C''\<rparr>]
     = Inr ([10, 30], [''B''])
   \<and> resolveGroupIDsFromNames
      (exampleUser (TfKnown (map AttrString exampleNamesABC)) (TfKnown (map AttrString exampleNamesABC)))
      [\<lparr>group_Id = 11, group_Name = ''A''\<rparr>, \<lparr>group_Id = 31, group_Name = ''C''\<rparr>]
     = Inr ([11, 31], [''B''])
   \<and> resolveRoleIds (exampleBinding (TfKnown (map AttrString exampleNamesABC)))
      [\<lparr>role_Id = 10, role_Name = ''A''\<rparr>, \<lparr>role_Id = 30, role_Name = ''C''\<rparr>]
     = Inr ([10, 30], [''B''])
   \<and> resolvePermissions (exampleRolePermissions (TfKnown (map permissionObject examplePairs)))
      [\<lparr>perm_Id = 5, perm_Permission_Name = ''can_read'', perm_ViewMenu_Name = ''Chart''\<rparr>,
       \<lparr>perm_Id = 6, perm_Permission_Name = ''can_read'', perm_ViewMenu_Name = ''Dataset''\<rparr>]
     = Inr ([\<lparr>rp_Id = 5, rp_PermissionName = ''can_read'', rp_ViewMenuName = ''Chart''\<rparr>,
             \<lparr>rp_Id = 6, rp_PermissionName = ''can_read'', rp_ViewMenuName = ''Dataset''\<rparr>],
            [''can_write_Chart''])"
proof -
  have h1: "Elements (um_RoleNames (exampleUser (TfKnown (map AttrString exampleNamesABC))
               (TfKnown (map AttrString exampleNamesABC)))) = map AttrString exampleNamesABC"
    by (simp add: exampleUser_def)
  have h2: "Elements (um_GroupNames (exampleUser (TfKnown (map AttrString exampleNamesABC))
               (TfKnown (map AttrString exampleNamesABC)))) = map AttrString exampleNamesABC"
    by (simp add: exampleUser_def)
  have h3: "Elements (gb_RoleNames (exampleBinding (TfKnown (map AttrString exampleNamesABC))))
              = map AttrString exampleNamesABC"
    by (simp add: exampleBinding_def)
  have h4: "StringNull \<notin> set exampleNamesABC"
    by (simp add: exampleNamesABC_def)
  have h5: "Elements (rpm_Permissions (exampleRolePermissions (TfKnown (map permissionObject examplePairs))))
              = map permissionObject examplePairs"
    by (simp add: exampleRolePermissions_def)
  have h6: "\<forall>pv\<in>set examplePairs. fst pv \<noteq> StringNull \<and> snd pv \<noteq> StringNull"
    by (simp add: examplePairs_def)
  note t = name_resolution [OF h1 h2 h3 h4 h5 h6,
      where sourceRoles = "[\<lparr>role_Id = 10, role_Name = ''A''\<rparr>, \<lparr>role_Id = 30, role_Name = ''C''\<rparr>]"
        and sourceGroups = "[\<lparr>group_Id = 11, group_Name = ''A''\<rparr>, \<lparr>group_Id = 31, group_Name = ''C''\<rparr>]"
        and sourcePermissions =
          "[\<lparr>perm_Id = 5, perm_Permission_Name = ''can_read'', perm_ViewMenu_Name = ''Chart''\<rparr>,
            \<lparr>perm_Id = 6, perm_Permission_Name = ''can_read'', perm_ViewMenu_Name = ''Dataset''\<rparr>]"]
  have a: "resolvedIds (roleTable [\<lparr>role_Id = 10, role_Name = ''A''\<rparr>, \<lparr>role_Id = 30, role_Name = ''C''\<rparr>])
             (map ValueString exampleNamesABC) = [10, 30]"
    "unresolved (roleTable [\<lparr>role_Id = 10, role_Name = ''A''\<rparr>, \<lparr>role_Id = 30, role_Name = ''C''\<rparr>])
             (map ValueString exampleNamesABC) = [''B'']"
    by (simp_all add: resolvedIds_def unresolved_def roleTable_def exampleNamesABC_def)
  have b: "resolvedIds (groupTable [\<lparr>group_Id = 11, group_Name = ''A''\<rparr>, \<lparr>group_Id = 31, group_Name = ''C''\<rparr>])
             (map ValueString exampleNamesABC) = [11, 31]"
    "unresolved (groupTable [\<lparr>group_Id = 11, group_Name = ''A''\<rparr>, \<lparr>group_Id = 31, group_Name = ''C''\<rparr>])
             (map ValueString exampleNamesABC) = [''B'']"
    by (simp_all add: resolvedIds_def unresolved_def groupTable_def exampleNamesABC_def)
  have c: "resolvedPermissions (permissionTable
              [\<lparr>perm_Id = 5, perm_Permission_Name = ''can_read'', perm_ViewMenu_Name = ''Chart''\<rparr>,
               \<lparr>perm_Id = 6, perm_Permission_Name = ''can_read'', perm_ViewMenu_Name = ''Dataset''\<rparr>])
             examplePairs
           = [\<lparr>rp_Id = 5, rp_PermissionName = ''can_read'', rp_ViewMenuName = ''Chart''\<rparr>,
              \<lparr>rp_Id = 6, rp_PermissionName = ''can_read'', rp_ViewMenuName = ''Dataset''\<rparr>]"
    "unresolved (permissionTable
              [\<lparr>perm_Id = 5, perm_Permission_Name = ''can_read'', perm_ViewMenu_Name = ''Chart''\<rparr>,
               \<lparr>perm_Id = 6, perm_Permission_Name = ''can_read'', perm_ViewMenu_Name = ''Dataset''\<rparr>])
             (map permissionKey examplePairs) = [''can_write_Chart'']"
    by (simp_all add: resolvedPermissions_def unresolved_def permissionTable_def examplePairs_def
          permissionKey_def)
  show ?thesis
    using t unfolding a b c by blast
qed

section \<open>Paginated lists\<close>








section \<open>Delete handlers\<close>

lemma HasError_append: "HasError (xs @ ys) \<longleftrightarrow> HasError xs \<or> HasError ys"
  by (simp add: HasError_def list_ex_iff) blast

lemma HasError_AddWarning: "HasError (AddWarning diags s d i e) \<longleftrightarrow> HasError diags"
  by (simp add: AddWarning_def HasError_def list_ex_iff)

lemma HasError_AddError: "HasError (AddError diags s d i e)"
  by (simp add: AddError_def HasError_def list_ex_iff)

text \<open>
  C9. If the remote delete of the user succeeds, \<^verbatim>\<open>Delete\<close> makes no other call and adds
  no diagnostic. If it fails, the failure is added as a warning, and one update is issued
  for the same user with \<open>active = false\<close> and an empty list of groups; an error diagnostic
  is added exactly when that update fails too. So, the read of the prior state having
  given no error, the response has an error if and only if both calls fail.
\<close>

theorem UserResource_Delete_fallback:
  "(client_DeleteUser client (ValueInt64 (um_Id state)) = None \<longrightarrow>
      (UserResource_Delete client stateDiags state :: 'p DeleteResponse) =
        \<lparr>del_Diagnostics = stateDiags, del_StateRemoved = False,
         del_Calls = [CallDeleteUser (ValueInt64 (um_Id state))]\<rparr>)
   \<and> (\<forall>err. client_DeleteUser client (ValueInt64 (um_Id state)) = Some err \<longrightarrow>
        del_Calls (UserResource_Delete client stateDiags state :: 'p DeleteResponse) =
          [CallDeleteUser (ValueInt64 (um_Id state)),
           CallUpdateUser (ValueInt64 (um_Id state)) deactivateBody] \<and>
        (\<exists>w\<in>set (del_Diagnostics (UserResource_Delete client stateDiags state :: 'p DeleteResponse)).
            diag_Severity w = SeverityWarning \<and> diag_Summary w = ''Deletion Error'' \<and> diag_Err w = err) \<and>
        (HasError (del_Diagnostics (UserResource_Delete client stateDiags state :: 'p DeleteResponse))
           \<longleftrightarrow> HasError stateDiags \<or>
               client_UpdateUser client (ValueInt64 (um_Id state)) deactivateBody \<noteq> None))
   \<and> (HasError (del_Diagnostics (UserResource_Delete client stateDiags state :: 'p DeleteResponse))
        \<longleftrightarrow> HasError stateDiags \<or>
            (client_DeleteUser client (ValueInt64 (um_Id state)) \<noteq> None \<and>
             client_UpdateUser client (ValueInt64 (um_Id state)) deactivateBody \<noteq> None))"
proof -
  let ?id = "ValueInt64 (um_Id state)"
  let ?r = "UserResource_Delete client stateDiags state :: 'p DeleteResponse"
  have ok: "?r = \<lparr>del_Diagnostics = stateDiags, del_StateRemoved = False, del_Calls = [CallDeleteUser ?id]\<rparr>"
    if "client_DeleteUser client ?id = None"
    using that by (simp add: UserResource_Delete_def)
  have failed: "del_Calls ?r = [CallDeleteUser ?id, CallUpdateUser ?id deactivateBody] \<and>
        (\<exists>w\<in>set (del_Diagnostics ?r).
            diag_Severity w = SeverityWarning \<and> diag_Summary w = ''Deletion Error'' \<and> diag_Err w = err) \<and>
        (HasError (del_Diagnostics ?r) \<longleftrightarrow>
           HasError stateDiags \<or> client_UpdateUser client ?id deactivateBody \<noteq> None)"
    if "client_DeleteUser client ?id = Some err" for err
  proof (cases "client_UpdateUser client ?id deactivateBody")
    case None
    with that show ?thesis
      unfolding deactivateBody_def
      by (simp add: UserResource_Delete_def Let_def HasError_AddWarning) (simp add: AddWarning_def)
  next
    case (Some err2)
    with that show ?thesis
      unfolding deactivateBody_def
      by (simp add: UserResource_Delete_def Let_def HasError_AddError)
         (simp add: AddWarning_def AddError_def)
  qed
  have iff: "HasError (del_Diagnostics ?r) \<longleftrightarrow>
        HasError stateDiags \<or>
          (client_DeleteUser client ?id \<noteq> None \<and> client_UpdateUser client ?id deactivateBody \<noteq> None)"
  proof (cases "client_DeleteUser client ?id")
    case None
    with ok show ?thesis by simp
  next
    case (Some err)
    with failed [OF Some] show ?thesis by simp
  qed
  from ok failed iff show ?thesis by blast
qed

theorem UserResource_Delete_fallback_witness:
  "\<not> HasError (del_Diagnostics
       (UserResource_Delete (exampleUserClient None) [] (exampleUser TfNull TfNull) :: unit DeleteResponse))
   \<and> del_Calls (UserResource_Delete (exampleUserClient None) [] (exampleUser TfNull TfNull) :: unit DeleteResponse)
       = [CallDeleteUser 1, CallUpdateUser 1 deactivateBody]
   \<and> HasError (del_Diagnostics
       (UserResource_Delete (exampleUserClient (Some (RemoteError ''timeout''))) []
          (exampleUser TfNull TfNull) :: unit DeleteResponse))"
proof -
  have d: "client_DeleteUser (exampleUserClient a) (ValueInt64 (um_Id (exampleUser TfNull TfNull)))
             = Some (StatusError ''failed to delete user'' 422 ''referenced'')" for a
    by (simp add: exampleUserClient_def)
  have u: "client_UpdateUser (exampleUserClient a) i b = a" for a i b
    by (simp add: exampleUserClient_def)
  have i: "ValueInt64 (um_Id (exampleUser TfNull TfNull)) = 1"
    by (simp add: exampleUser_def)
  have n: "\<not> HasError []"
    by (simp add: HasError_def)
  note t1 = UserResource_Delete_fallback [where client = "exampleUserClient None" and stateDiags = "[]"
      and state = "exampleUser TfNull TfNull" and ?'p = unit]
  note t2 = UserResource_Delete_fallback [where client = "exampleUserClient (Some (RemoteError ''timeout''))"
      and stateDiags = "[]" and state = "exampleUser TfNull TfNull" and ?'p = unit]
  from t1 [THEN conjunct2, THEN conjunct1, THEN spec, THEN mp, OF d]
  have a: "del_Calls (UserResource_Delete (exampleUserClient None) [] (exampleUser TfNull TfNull) :: unit DeleteResponse)
       = [CallDeleteUser 1, CallUpdateUser 1 deactivateBody]"
    unfolding i by simp
  from t1 [THEN conjunct2, THEN conjunct2]
  have b: "\<not> HasError (del_Diagnostics
       (UserResource_Delete (exampleUserClient None) [] (exampleUser TfNull TfNull) :: unit DeleteResponse))"
    unfolding u using n by simp
  from t2 [THEN conjunct2, THEN conjunct2]
  have c: "HasError (del_Diagnostics
       (UserResource_Delete (exampleUserClient (Some (RemoteError ''timeout''))) []
          (exampleUser TfNull TfNull) :: unit DeleteResponse))"
    unfolding u d by simp
  from a b c show ?thesis by simp
qed

text \<open>
  C10. \<^verbatim>\<open>Delete\<close> of the dataset-metrics resource and of the dataset-folder resource: if
  looking up the parent dataset by name answers not-found, the handler removes the resource
  from the state, adds no diagnostic and sends no update. If the dataset is found, the one
  update sent for its id has a body in which only the field of the resource is set, to the
  empty list: \<open>metrics\<close> for the one, \<open>folders\<close> for the other.
\<close>

theorem sub_resource_Delete:
  "(\<forall>err. client_FindDataset client (ValueString datasetName) = Inl err \<and> IsNotFound err \<longrightarrow>
       datasetMetricsResource_Delete client stateDiags datasetName =
         \<lparr>del_Diagnostics = stateDiags, del_StateRemoved = True,
          del_Calls = [CallFindDataset (ValueString datasetName)]\<rparr> \<and>
       datasetFolderResource_Delete client stateDiags datasetName =
         \<lparr>del_Diagnostics = stateDiags, del_StateRemoved = True,
          del_Calls = [CallFindDataset (ValueString datasetName)]\<rparr>)
   \<and> (\<forall>datasetId. client_FindDataset client (ValueString datasetName) = Inr datasetId \<longrightarrow>
       del_Calls (datasetMetricsResource_Delete client stateDiags datasetName) =
         [CallFindDataset (ValueString datasetName),
          CallUpdateDataset datasetId (zeroDatasetRestApiPut\<lparr>dput_Metrics := Some []\<rparr>)] \<and>
       del_Calls (datasetFolderResource_Delete client stateDiags datasetName) =
         [CallFindDataset (ValueString datasetName),
          CallUpdateDataset datasetId (zeroDatasetRestApiPut\<lparr>dput_Folders := Some []\<rparr>)] \<and>
       (client_UpdateDataset client datasetId (zeroDatasetRestApiPut\<lparr>dput_Metrics := Some []\<rparr>) = None \<longrightarrow>
          del_Diagnostics (datasetMetricsResource_Delete client stateDiags datasetName) = stateDiags) \<and>
       (client_UpdateDataset client datasetId (zeroDatasetRestApiPut\<lparr>dput_Folders := Some []\<rparr>) = None \<longrightarrow>
          del_Diagnostics (datasetFolderResource_Delete client stateDiags datasetName) = stateDiags))"
  by (auto simp: datasetMetricsResource_Delete_def datasetFolderResource_Delete_def
        datasetSubResource_Delete_def Let_def split: option.splits)

theorem sub_resource_Delete_witness:
  "datasetMetricsResource_Delete (exampleDatasetClient (Inl (Wrapped ''dataset'' NotFoundError))) []
       (StringValue ''sales'')
     = \<lparr>del_Diagnostics = [], del_StateRemoved = True, del_Calls = [CallFindDataset ''sales'']\<rparr>
   \<and> datasetFolderResource_Delete (exampleDatasetClient (Inl (Wrapped ''dataset'' NotFoundError))) []
       (StringValue ''sales'')
     = \<lparr>del_Diagnostics = [], del_StateRemoved = True, del_Calls = [CallFindDataset ''sales'']\<rparr>
   \<and> del_Calls (datasetMetricsResource_Delete (exampleDatasetClient (Inr 12)) [] (StringValue ''sales''))
     = [CallFindDataset ''sales'',
        CallUpdateDataset 12 (zeroDatasetRestApiPut\<lparr>dput_Metrics := Some []\<rparr>)]
   \<and> del_Calls (datasetFolderResource_Delete (exampleDatasetClient (Inr 12)) [] (StringValue ''sales''))
     = [CallFindDataset ''sales'',
        CallUpdateDataset 12 (zeroDatasetRestApiPut\<lparr>dput_Folders := Some []\<rparr>)]
   \<and> del_Diagnostics (datasetMetricsResource_Delete (exampleDatasetClient (Inr 12)) [] (StringValue ''sales''))
     = []"
proof -
  have f: "client_FindDataset (exampleDatasetClient a) (ValueString (StringValue ''sales'')) = a" for a
    by (simp add: exampleDatasetClient_def)
  have nf: "client_FindDataset (exampleDatasetClient (Inl (Wrapped ''dataset'' NotFoundError)))
              (ValueString (StringValue ''sales'')) = Inl (Wrapped ''dataset'' NotFoundError)
            \<and> IsNotFound (Wrapped ''dataset'' NotFoundError)"
    by (simp add: exampleDatasetClient_def)
  have up: "client_UpdateDataset (exampleDatasetClient a) i b = None" for a i b
    by (simp add: exampleDatasetClient_def)
  note t1 = sub_resource_Delete [where client = "exampleDatasetClient (Inl (Wrapped ''dataset'' NotFoundError))"
      and stateDiags = "[]" and datasetName = "StringValue ''sales''"]
  note t2 = sub_resource_Delete [where client = "exampleDatasetClient (Inr 12)"
      and stateDiags = "[]" and datasetName = "StringValue ''sales''"]
  note a = t1 [THEN conjunct1, THEN spec, THEN mp, OF nf]
  note b = t2 [THEN conjunct2, THEN spec, THEN mp, OF f]
  from a b up show ?thesis by simp
qed

end
